theory Spec2Isabelle
  imports Main "HOL-Library.Word" "HOL-Library.List_Lexorder" "HOL-Library.AList"
begin

section \<open>Strings of the host\<close>

text \<open>
  A string of the program is a sequence of 16-bit code units; \<open>length\<close>, \<open>charAt\<close> and
  \<open>slice\<close> count code units. A literal of the source that is plain ASCII is written
  \<open>utf16 ''colour''\<close>: below U+0080 the code unit is the byte.
\<close>

type_synonym code_unit = "16 word"
type_synonym jsstring = "code_unit list"

definition utf16 :: "string \<Rightarrow> jsstring" where
  "utf16 s = map of_char s"

text \<open>\<open>s.charAt(i)\<close>: the one-unit string at \<open>i\<close>, the empty string out of range.\<close>

definition charAt :: "jsstring \<Rightarrow> nat \<Rightarrow> jsstring" where
  "charAt s i = (if i < length s then [s ! i] else [])"

text \<open>\<open>s.slice(n)\<close> for a start \<open>n \<ge> 0\<close>: empty when \<open>n\<close> is past the end.\<close>

definition slice_from :: "jsstring \<Rightarrow> nat \<Rightarrow> jsstring" where
  "slice_from s n = drop n s"

text \<open>
  \<open>toLowerCase\<close> and \<open>toUpperCase\<close> are the host's locale-independent case mappings.
  The tables below are the host's on Basic Latin and the Latin-1 Supplement
  (U+0000 to U+00FF), including the three code units whose uppercase form leaves
  that range or grows: U+00DF gives the two units of \<open>SS\<close>, U+00FF gives U+0178 and
  U+00B5 gives U+039C. Above U+00FF the host's tables are not reproduced (there the
  host maps, for instance, U+0130 to the two code units U+0069 U+0307 and U+03C9 to
  U+03A9): the model leaves such a code unit as it is. So each theorem of the last two
  sections either does not open the tables, or is evaluated on strings of code units
  up to U+00FF, or is stated for such strings only (\<open>latin1\<close>); the lemmas before
  them that open the tables say what the tables of the model do.
\<close>

definition lowerUnit :: "code_unit \<Rightarrow> code_unit" where
  "lowerUnit c =
     (if (0x41 \<le> c \<and> c \<le> 0x5A) \<or> (0xC0 \<le> c \<and> c \<le> 0xDE \<and> c \<noteq> 0xD7)
      then c + 0x20 else c)"

definition upperUnits :: "code_unit \<Rightarrow> jsstring" where
  "upperUnits c =
     (if (0x61 \<le> c \<and> c \<le> 0x7A) \<or> (0xE0 \<le> c \<and> c \<le> 0xFE \<and> c \<noteq> 0xF7)
      then [c - 0x20]
      else if c = 0xDF then [0x53, 0x53]
      else if c = 0xFF then [0x178]
      else if c = 0xB5 then [0x39C]
      else [c])"

definition toLowerCase :: "jsstring \<Rightarrow> jsstring" where
  "toLowerCase s = map lowerUnit s"

definition toUpperCase :: "jsstring \<Rightarrow> jsstring" where
  "toUpperCase s = concat (map upperUnits s)"

definition latin1 :: "jsstring \<Rightarrow> bool" where
  "latin1 s = list_all (\<lambda>c. c \<le> 0xFF) s"

text \<open>One character of the source text as a code unit: \<open>ch CHR ''(''\<close> is U+0028.\<close>

definition ch :: "char \<Rightarrow> code_unit" where
  "ch c = of_char c"

section \<open>Case mirroring\<close>

text \<open>
  The mixed-casing loop of \<open>_matchCase\<close> (source lines 50 to 61): \<open>i\<close> runs from its
  start value up to \<open>last\<close>, pushing one piece per index onto \<open>out\<close>.
  \<open>ref >= "A" && ref <= "Z"\<close> compares one-unit strings, that is the code unit
  with U+0041 and U+005A.
\<close>

definition isRefUpper :: "jsstring \<Rightarrow> bool" where
  "isRefUpper ref = (utf16 ''A'' \<le> ref \<and> ref \<le> utf16 ''Z'')"

function matchCase_loop ::
  "jsstring \<Rightarrow> jsstring \<Rightarrow> nat \<Rightarrow> nat \<Rightarrow> jsstring list \<Rightarrow> jsstring list" where
  "matchCase_loop input toMatch lastIdx i out =
     (if i < lastIdx then
        (let src = charAt input i;
             ref = charAt toMatch i
         in matchCase_loop input toMatch lastIdx (Suc i)
              (if toLowerCase src = toLowerCase ref
               then out @ [if isRefUpper ref then toUpperCase src else toLowerCase src]
               else out @ [src]))
      else out)"
  by pat_completeness auto
termination
  by (relation "measure (\<lambda>(input, toMatch, lastIdx, i, out). lastIdx - i)") auto

text \<open>\<open>_matchCase(input, toMatch)\<close>, source lines 32 to 66; \<open>out.join("")\<close> is \<open>concat\<close>.\<close>

definition matchCase :: "jsstring \<Rightarrow> jsstring \<Rightarrow> jsstring" where
  "matchCase input toMatch =
     (if length input = 0 \<or> length toMatch = 0 then input
      else
        let isTitleCase =
              (charAt toMatch 0 = toUpperCase (charAt toMatch 0) \<and>
               slice_from toMatch 1 = toLowerCase (slice_from toMatch 1))
        in if isTitleCase then
             (let head = toUpperCase (charAt input 0);
                  tail = toLowerCase (slice_from input 1)
              in head @ tail)
           else
             let isAllUpper = (toMatch = toUpperCase toMatch)
             in if isAllUpper then toUpperCase input
                else
                  let isAllLower = (toMatch = toLowerCase toMatch)
                  in if isAllLower then toLowerCase input
                     else
                       let lastIdx = min (length input) (length toMatch);
                           out = matchCase_loop input toMatch lastIdx 0 [];
                           out = (if length input > length toMatch
                                  then out @ [slice_from input (length toMatch)] else out)
                       in concat out)"

section \<open>Patterns the host compiles\<close>

text \<open>
  \<open>new RegExp(pattern, "gmi")\<close> raises SyntaxError when \<open>pattern\<close> is not a pattern
  of the host. The flags hold no \<open>u\<close> or \<open>v\<close>, so the pattern is read by the
  grammar for web browsers (ECMAScript, Annex B). \<open>pattern_ok\<close> checks its early
  errors: a group that is not closed or not opened, a group specifier that is none of
  \<open>(?:\<close>, \<open>(?=\<close>, \<open>(?!\<close>, \<open>(?<=\<close>, \<open>(?<!\<close>, \<open>(?<name>\<close> or a
  modifier group over \<open>i\<close>, \<open>m\<close>, \<open>s\<close>, a quantifier with nothing to repeat,
  quantifier bounds out of order, a character class that is not closed or has a
  range out of order, a backslash at the end, and, once the pattern names a group,
  a name repeated within one alternative or a \<open>\k\<close> that names no group. Two
  limits: group names are read over ASCII letters, digits, \<open>$\<close> and \<open>_\<close> (the host
  also takes other letters), and quantifier bounds are compared as written (a host
  may cut very large bounds to its largest integer first). What is proved below
  evaluates \<open>pattern_ok\<close> only on words without a group name or a braced bound, or
  takes its answer as a hypothesis.
\<close>

datatype error = SyntaxError | TypeError

datatype RegExp = RegExp (source: jsstring) (flags: jsstring)

definition isDecimalDigit :: "code_unit \<Rightarrow> bool" where
  "isDecimalDigit c = (ch CHR ''0'' \<le> c \<and> c \<le> ch CHR ''9'')"

definition isOctalDigit :: "code_unit \<Rightarrow> bool" where
  "isOctalDigit c = (ch CHR ''0'' \<le> c \<and> c \<le> ch CHR ''7'')"

definition isAsciiLetter :: "code_unit \<Rightarrow> bool" where
  "isAsciiLetter c =
     ((ch CHR ''a'' \<le> c \<and> c \<le> ch CHR ''z'') \<or> (ch CHR ''A'' \<le> c \<and> c \<le> ch CHR ''Z''))"

definition isHexDigit :: "code_unit \<Rightarrow> bool" where
  "isHexDigit c =
     (isDecimalDigit c \<or> (ch CHR ''a'' \<le> c \<and> c \<le> ch CHR ''f'') \<or>
      (ch CHR ''A'' \<le> c \<and> c \<le> ch CHR ''F''))"

definition hexValue :: "code_unit \<Rightarrow> nat" where
  "hexValue c =
     (if isDecimalDigit c then unat c - 48
      else if ch CHR ''a'' \<le> c then unat c - 87 else unat c - 55)"

definition decimalValue :: "jsstring \<Rightarrow> nat" where
  "decimalValue ds = foldl (\<lambda>n c. 10 * n + (unat c - 48)) 0 ds"

definition hexNumber :: "jsstring \<Rightarrow> nat" where
  "hexNumber ds = foldl (\<lambda>n c. 16 * n + hexValue c) 0 ds"

definition octalNumber :: "jsstring \<Rightarrow> nat" where
  "octalNumber ds = foldl (\<lambda>n c. 8 * n + (unat c - 48)) 0 ds"

text \<open>
  The text after \<open>{\<close>, when it is one of \<open>n}\<close>, \<open>n,}\<close>, \<open>n,m}\<close>: whether the bounds
  are in order, and the number of code units up to and including \<open>}\<close>. Any other text
  after \<open>{\<close> leaves the brace an ordinary character.
\<close>

definition bracedQuantifier :: "jsstring \<Rightarrow> (bool \<times> nat) option" where
  "bracedQuantifier cs =
     (let lo = takeWhile isDecimalDigit cs; r = dropWhile isDecimalDigit cs
      in if lo = [] then None
         else case r of
           [] \<Rightarrow> None
         | c # r' \<Rightarrow>
             if c = ch CHR ''}'' then Some (True, length lo + 1)
             else if c = ch CHR '','' then
               (let hi = takeWhile isDecimalDigit r'; r'' = dropWhile isDecimalDigit r'
                in case r'' of
                     [] \<Rightarrow> None
                   | d # _ \<Rightarrow>
                       if d = ch CHR ''}''
                       then Some (hi = [] \<or> decimalValue lo \<le> decimalValue hi,
                                  length lo + 1 + length hi + 1)
                       else None)
             else None)"

text \<open>A quantifier may be followed by \<open>?\<close> (the lazy form).\<close>

definition skipLazy :: "jsstring \<Rightarrow> jsstring" where
  "skipLazy cs = (case cs of [] \<Rightarrow> [] | c # r \<Rightarrow> if c = ch CHR ''?'' then r else cs)"

definition isIdentifierStart :: "code_unit \<Rightarrow> bool" where
  "isIdentifierStart c = (isAsciiLetter c \<or> c = ch CHR ''$'' \<or> c = ch CHR ''_'')"

definition isIdentifierPart :: "code_unit \<Rightarrow> bool" where
  "isIdentifierPart c = (isIdentifierStart c \<or> isDecimalDigit c)"

text \<open>The name of \<open><name>\<close> at the head of the text, if one stands there.\<close>

definition groupName :: "jsstring \<Rightarrow> jsstring option" where
  "groupName cs =
     (case cs of
        [] \<Rightarrow> None
      | c # r \<Rightarrow>
          if c = ch CHR ''<'' then
            (let n = takeWhile (\<lambda>x. x \<noteq> ch CHR ''>'') r
             in if length n < length r \<and> n \<noteq> [] \<and> isIdentifierStart (hd n) \<and>
                   list_all isIdentifierPart n
                then Some n else None)
          else None)"

definition isModifier :: "code_unit \<Rightarrow> bool" where
  "isModifier c = (c = ch CHR ''i'' \<or> c = ch CHR ''m'' \<or> c = ch CHR ''s'')"

text \<open>
  The text after \<open>(\<close>: whether the group, once closed, may take a quantifier (a
  lookbehind may not), the name it declares, and the code units of the specifier.
  \<open>None\<close> is an invalid group.
\<close>

definition groupSpecifier :: "jsstring \<Rightarrow> (bool \<times> jsstring option \<times> nat) option" where
  "groupSpecifier cs =
     (case cs of
        [] \<Rightarrow> Some (True, None, 0)
      | q # r \<Rightarrow>
          if q \<noteq> ch CHR ''?'' then Some (True, None, 0)
          else case r of
            [] \<Rightarrow> None
          | x # r' \<Rightarrow>
              if x = ch CHR '':'' \<or> x = ch CHR ''='' \<or> x = ch CHR ''!'' then Some (True, None, 2)
              else if x = ch CHR ''<'' \<and> r' \<noteq> [] \<and>
                      (hd r' = ch CHR ''='' \<or> hd r' = ch CHR ''!'') then Some (False, None, 3)
              else if x = ch CHR ''<'' then
                (case groupName r of
                   None \<Rightarrow> None
                 | Some n \<Rightarrow> Some (True, Some n, length n + 3))
              else
                (let add = takeWhile isModifier r; r1 = dropWhile isModifier r
                 in case r1 of
                      [] \<Rightarrow> None
                    | y # r2 \<Rightarrow>
                        if y = ch CHR '':'' then
                          (if add \<noteq> [] \<and> distinct add then Some (True, None, length add + 2)
                           else None)
                        else if y = ch CHR ''-'' then
                          (let del = takeWhile isModifier r2; r3 = dropWhile isModifier r2
                           in case r3 of
                                [] \<Rightarrow> None
                              | z # _ \<Rightarrow>
                                  if z = ch CHR '':'' \<and> add @ del \<noteq> [] \<and> distinct (add @ del)
                                  then Some (True, None, length add + length del + 3)
                                  else None)
                        else None))"

text \<open>
  One atom of a character class: \<open>c\<close> is its first code unit and \<open>cs\<close> the text
  after it. The result is the character the atom stands for (\<open>None\<close> for a class
  escape such as \<open>\d\<close>), the number of code units of \<open>cs\<close> the atom takes, and
  whether the atom is \<open>\k\<close>. \<open>None\<close> is a backslash at the end of the pattern.
\<close>

definition classAtom :: "code_unit \<Rightarrow> jsstring \<Rightarrow> (nat option \<times> nat \<times> bool) option" where
  "classAtom c cs =
     (if c \<noteq> ch CHR 0x5C then Some (Some (unat c), 0, False)
      else case cs of
        [] \<Rightarrow> None
      | e # r \<Rightarrow>
          if e \<in> set (utf16 ''dDsSwW'') then Some (None, 1, False)
          else if e = ch CHR ''b'' then Some (Some 8, 1, False)
          else if e = ch CHR ''t'' then Some (Some 9, 1, False)
          else if e = ch CHR ''n'' then Some (Some 10, 1, False)
          else if e = ch CHR ''v'' then Some (Some 11, 1, False)
          else if e = ch CHR ''f'' then Some (Some 12, 1, False)
          else if e = ch CHR ''r'' then Some (Some 13, 1, False)
          else if e = ch CHR ''k'' then Some (Some (unat e), 1, True)
          else if e = ch CHR ''c'' then
            (case r of
               [] \<Rightarrow> Some (Some 0x5C, 0, False)
             | x # _ \<Rightarrow>
                 if isAsciiLetter x \<or> isDecimalDigit x \<or> x = ch CHR ''_''
                 then Some (Some (unat x mod 32), 2, False)
                 else Some (Some 0x5C, 0, False))
          else if e = ch CHR ''x'' then
            (if 2 \<le> length r \<and> list_all isHexDigit (take 2 r)
             then Some (Some (hexNumber (take 2 r)), 3, False)
             else Some (Some (unat e), 1, False))
          else if e = ch CHR ''u'' then
            (if 4 \<le> length r \<and> list_all isHexDigit (take 4 r)
             then Some (Some (hexNumber (take 4 r)), 5, False)
             else Some (Some (unat e), 1, False))
          else if isOctalDigit e then
            (let more = takeWhile isOctalDigit (take (if e \<le> ch CHR ''3'' then 2 else 1) r)
             in Some (Some (octalNumber (e # more)), 1 + length more, False))
          else Some (Some (unat e), 1, False))"

text \<open>
  The text of a character class after \<open>[\<close> and an optional \<open>^\<close>: the number of
  code units up to and including the closing \<open>]\<close>, and whether \<open>\k\<close> occurs.
  \<open>None\<close> is a class that is not closed or a range out of order.
\<close>

lemma drop_Cons_shorter: "drop n cs = d # r \<Longrightarrow> length r < length cs"
proof -
  assume "drop n cs = d # r"
  then have "length (drop n cs) = Suc (length r)" by simp
  then show ?thesis by simp
qed

function (sequential) classRanges :: "jsstring \<Rightarrow> (nat \<times> bool) option" where
  "classRanges [] = None"
| "classRanges (c # cs) =
     (if c = ch CHR '']'' then Some (1, False)
      else case classAtom c cs of
        None \<Rightarrow> None
      | Some (a, n, k1) \<Rightarrow>
          (case drop n cs of
             [] \<Rightarrow> None
           | d # r \<Rightarrow>
               if d = ch CHR ''-'' \<and> r \<noteq> [] \<and> hd r \<noteq> ch CHR '']'' then
                 (case classAtom (hd r) (tl r) of
                    None \<Rightarrow> None
                  | Some (b, m, k2) \<Rightarrow>
                      if (case (a, b) of (Some x, Some y) \<Rightarrow> y < x | _ \<Rightarrow> False) then None
                      else map_option (\<lambda>(t, k). (1 + n + 2 + m + t, k1 \<or> k2 \<or> k))
                             (classRanges (drop m (tl r))))
               else map_option (\<lambda>(t, k). (1 + n + t, k1 \<or> k))
                      (classRanges (drop n cs))))"
  by pat_completeness auto
termination
  by (relation "measure length") (auto dest!: drop_Cons_shorter)

definition characterClass :: "jsstring \<Rightarrow> (nat \<times> bool) option" where
  "characterClass cs =
     (case cs of
        [] \<Rightarrow> None
      | c # r \<Rightarrow>
          if c = ch CHR ''^'' then map_option (\<lambda>(t, k). (t + 1, k)) (classRanges r)
          else classRanges cs)"

text \<open>
  Two groups may carry the same name only when they stand in different alternatives
  of one disjunction. A group is placed by its path: for the pattern and for every
  group around it, the number of the disjunction and of the alternative it stands in.
\<close>

type_synonym group_path = "(nat \<times> nat) list"

definition apart :: "group_path \<Rightarrow> group_path \<Rightarrow> bool" where
  "apart p p' = list_ex (\<lambda>(d, a). list_ex (\<lambda>(d', a'). d = d' \<and> a \<noteq> a') p') p"

fun names_ok :: "(jsstring \<times> group_path) list \<Rightarrow> bool" where
  "names_ok [] = True"
| "names_ok ((n, p) # ns) = (list_all (\<lambda>(n', p'). n' \<noteq> n \<or> apart p p') ns \<and> names_ok ns)"

text \<open>
  The scan of a pattern. \<open>stk\<close> holds one entry per open group: whether it may take
  a quantifier once closed, the number of its disjunction and the alternative being
  read. \<open>q\<close> says whether the text read so far ends in a term a quantifier may
  follow, \<open>ns\<close> are the group names declared, each with its path, and \<open>rs\<close> the
  names \<open>\k\<close> refers to (the empty name for a \<open>\k\<close> with no name after it).
  \<open>alt\<close> is the alternative of the whole pattern being read and \<open>fresh\<close> the
  number the next group's disjunction gets.
\<close>

lemma length_skipLazy: "length (skipLazy cs) < Suc (length cs)"
  by (cases cs) (simp_all add: skipLazy_def)

lemma length_skipLazy_drop: "length (skipLazy (drop k cs)) < Suc (length cs)"
proof -
  have "length (skipLazy (drop k cs)) < Suc (length (drop k cs))" by (rule length_skipLazy)
  then show ?thesis by simp
qed

function pattern_scan ::
  "(bool \<times> nat \<times> nat) list \<Rightarrow> bool \<Rightarrow> (jsstring \<times> group_path) list \<Rightarrow> jsstring list \<Rightarrow>
   nat \<Rightarrow> nat \<Rightarrow> jsstring \<Rightarrow> bool" where
  "pattern_scan stk q ns rs alt fresh [] =
     (stk = [] \<and> (ns = [] \<or> (names_ok ns \<and> set rs \<subseteq> set (map fst ns))))"
| "pattern_scan stk q ns rs alt fresh (c # cs) =
     (if c = ch CHR 0x5C then
        (case cs of
           [] \<Rightarrow> False
         | e # cs' \<Rightarrow>
             if e = ch CHR ''b'' \<or> e = ch CHR ''B'' then pattern_scan stk False ns rs alt fresh cs'
             else if e = ch CHR ''k'' then
               pattern_scan stk True ns
                 ((case groupName cs' of None \<Rightarrow> [] | Some n \<Rightarrow> n) # rs) alt fresh cs'
             else pattern_scan stk True ns rs alt fresh cs')
      else if c = ch CHR ''('' then
        (case groupSpecifier cs of
           None \<Rightarrow> False
         | Some (g, name, k) \<Rightarrow>
             pattern_scan ((g, fresh, 0) # stk) False
               (case name of
                  None \<Rightarrow> ns
                | Some n \<Rightarrow> (n, (0, alt) # map snd stk) # ns)
               rs alt (Suc fresh) (drop k cs))
      else if c = ch CHR '')'' then
        (case stk of
           [] \<Rightarrow> False
         | (g, d, a) # stk' \<Rightarrow> pattern_scan stk' g ns rs alt fresh cs)
      else if c = ch CHR ''|'' then
        (case stk of
           [] \<Rightarrow> pattern_scan [] False ns rs (Suc alt) fresh cs
         | (g, d, a) # stk' \<Rightarrow> pattern_scan ((g, d, Suc a) # stk') False ns rs alt fresh cs)
      else if c = ch CHR ''^'' \<or> c = ch CHR ''$'' then
        pattern_scan stk False ns rs alt fresh cs
      else if c = ch CHR ''*'' \<or> c = ch CHR ''+'' \<or> c = ch CHR ''?'' then
        q \<and> pattern_scan stk False ns rs alt fresh (skipLazy cs)
      else if c = ch CHR ''{'' then
        (case bracedQuantifier cs of
           None \<Rightarrow> pattern_scan stk True ns rs alt fresh cs
         | Some (ordered, k) \<Rightarrow>
             q \<and> ordered \<and> pattern_scan stk False ns rs alt fresh (skipLazy (drop k cs)))
      else if c = ch CHR ''['' then
        (case characterClass cs of
           None \<Rightarrow> False
         | Some (k, usesK) \<Rightarrow>
             pattern_scan stk True ns (if usesK then [] # rs else rs) alt fresh (drop k cs))
      else pattern_scan stk True ns rs alt fresh cs)"
  by pat_completeness auto
termination
  by (relation "measure (\<lambda>(stk, q, ns, rs, alt, fresh, cs). length cs)")
     (auto simp: length_skipLazy length_skipLazy_drop)

definition pattern_ok :: "jsstring \<Rightarrow> bool" where
  "pattern_ok pattern = pattern_scan [] False [] [] 0 1 pattern"

text \<open>\<open>new RegExp(pattern, flags)\<close> for the flags \<open>"gmi"\<close> the program passes.\<close>

definition RegExp_new :: "jsstring \<Rightarrow> jsstring \<Rightarrow> error + RegExp" where
  "RegExp_new pattern fl =
     (if pattern_ok pattern then Inr (RegExp pattern fl) else Inl SyntaxError)"

section \<open>The index objects\<close>

text \<open>
  \<open>#enGB\<close> and \<open>#enUS\<close> are plain objects made by \<open>{}\<close>, read with \<open>obj[key]\<close>,
  written with \<open>obj[key] = [word, regex]\<close> and shrunk with \<open>delete obj[key]\<close>.
  Such an object has its own properties, kept in the order they were created, and a
  prototype. A read that finds no own property goes on to the prototype, so it
  answers for names such as \<open>constructor\<close> that nobody stored. A write to the key
  \<open>__proto__\<close>, when the object has no own property of that name, runs the setter
  the object inherits and makes the written array the object's prototype; from then
  on reads also find the array's own properties \<open>0\<close>, \<open>1\<close> and \<open>length\<close> and what
  arrays inherit. \<open>proto = None\<close> is the prototype every object literal starts with.
\<close>

datatype jsvalue =
    Undefined
  | Entry jsstring RegExp
  | String jsstring
  | Number nat
  | RegExpValue RegExp
  | Object

record jsobject =
  own :: "(jsstring \<times> jsstring \<times> RegExp) list"
  proto :: "(jsstring \<times> RegExp) option"

definition emptyObject :: jsobject where
  "emptyObject = \<lparr>own = [], proto = None\<rparr>"

definition ObjectPrototype_names :: "jsstring list" where
  "ObjectPrototype_names =
     map utf16
       [''constructor'', ''__defineGetter__'', ''__defineSetter__'', ''hasOwnProperty'',
        ''__lookupGetter__'', ''__lookupSetter__'', ''isPrototypeOf'',
        ''propertyIsEnumerable'', ''toString'', ''valueOf'', ''__proto__'',
        ''toLocaleString'']"

definition ArrayPrototype_names :: "jsstring list" where
  "ArrayPrototype_names =
     map utf16
       [''at'', ''concat'', ''constructor'', ''copyWithin'', ''entries'', ''every'', ''fill'',
        ''filter'', ''find'', ''findIndex'', ''findLast'', ''findLastIndex'', ''flat'',
        ''flatMap'', ''forEach'', ''includes'', ''indexOf'', ''join'', ''keys'',
        ''lastIndexOf'', ''length'', ''map'', ''pop'', ''push'', ''reduce'', ''reduceRight'',
        ''reverse'', ''shift'', ''slice'', ''some'', ''sort'', ''splice'', ''toLocaleString'',
        ''toReversed'', ''toSorted'', ''toSpliced'', ''toString'', ''unshift'', ''values'',
        ''with'']"

text \<open>
  \<open>obj[key]\<close>. The two lists above are the string keys of \<open>Object.prototype\<close> and
  of \<open>Array.prototype\<close>. An inherited method or the root prototype itself is
  \<open>Object\<close>: a value that is truthy, not iterable and has no property \<open>0\<close>.
\<close>

definition get :: "jsobject \<Rightarrow> jsstring \<Rightarrow> jsvalue" where
  "get obj key =
     (case map_of (own obj) key of
        Some (word, regex) \<Rightarrow> Entry word regex
      | None \<Rightarrow>
          (case proto obj of
             None \<Rightarrow> if key \<in> set ObjectPrototype_names then Object else Undefined
           | Some (word, regex) \<Rightarrow>
               if key = utf16 ''__proto__'' then Entry word regex
               else if key = utf16 ''0'' then String word
               else if key = utf16 ''1'' then RegExpValue regex
               else if key = utf16 ''length'' then Number 2
               else if key \<in> set ArrayPrototype_names \<or> key \<in> set ObjectPrototype_names
               then Object
               else Undefined))"

text \<open>\<open>obj[key] = [word, regex]\<close>.\<close>

definition put :: "jsobject \<Rightarrow> jsstring \<Rightarrow> jsstring \<times> RegExp \<Rightarrow> jsobject" where
  "put obj key entry =
     (if map_of (own obj) key = None \<and> key = utf16 ''__proto__''
      then obj\<lparr>proto := Some entry\<rparr>
      else obj\<lparr>own := AList.update key entry (own obj)\<rparr>)"

text \<open>\<open>delete obj[key]\<close>: only an own property goes.\<close>

definition delete :: "jsobject \<Rightarrow> jsstring \<Rightarrow> jsobject" where
  "delete obj key = obj\<lparr>own := AList.delete key (own obj)\<rparr>"

text \<open>
  \<open>Object.entries(obj)\<close> lists the own properties: first the keys that are array
  indices (canonical decimal numerals below \<open>2^32 - 1\<close>) in ascending order, then the
  other keys in the order they were created.
\<close>

definition arrayIndex :: "jsstring \<Rightarrow> nat option" where
  "arrayIndex key =
     (if key \<noteq> [] \<and> list_all isDecimalDigit key \<and> (key = utf16 ''0'' \<or> hd key \<noteq> ch CHR ''0'') \<and>
         decimalValue key < 4294967295
      then Some (decimalValue key) else None)"

definition Object_entries :: "jsobject \<Rightarrow> (jsstring \<times> jsstring \<times> RegExp) list" where
  "Object_entries obj =
     sort_key (\<lambda>(key, entry). the (arrayIndex key))
       (filter (\<lambda>(key, entry). arrayIndex key \<noteq> None) (own obj)) @
     filter (\<lambda>(key, entry). arrayIndex key = None) (own obj)"

text \<open>\<open>!v\<close> is \<open>\<not> truthy v\<close>.\<close>

definition truthy :: "jsvalue \<Rightarrow> bool" where
  "truthy v =
     (case v of
        Undefined \<Rightarrow> False
      | String s \<Rightarrow> s \<noteq> []
      | Number n \<Rightarrow> n \<noteq> 0
      | _ \<Rightarrow> True)"

text \<open>\<open>v[0]\<close> for a value that is not undefined; \<open>None\<close> is undefined.\<close>

definition element0 :: "jsvalue \<Rightarrow> jsstring option" where
  "element0 v =
     (case v of
        Entry word regex \<Rightarrow> Some word
      | String s \<Rightarrow> (if s = [] then None else Some [hd s])
      | _ \<Rightarrow> None)"

text \<open>
  \<open>const [first] = v\<close> for a truthy \<open>v\<close>: an array gives its first element, a string
  its first code point (one code unit, or a surrogate pair), and a value that is not
  iterable raises TypeError.
\<close>

definition firstCodePoint :: "jsstring \<Rightarrow> jsstring" where
  "firstCodePoint s =
     (case s of
        h # l # _ \<Rightarrow>
          if 0xD800 \<le> h \<and> h \<le> 0xDBFF \<and> 0xDC00 \<le> l \<and> l \<le> 0xDFFF then [h, l] else [h]
      | _ \<Rightarrow> s)"

definition destructureFirst :: "jsvalue \<Rightarrow> error + jsstring" where
  "destructureFirst v =
     (case v of
        Entry word regex \<Rightarrow> Inr word
      | String s \<Rightarrow> Inr (firstCodePoint s)
      | _ \<Rightarrow> Inl TypeError)"

section \<open>The dictionary\<close>

text \<open>
  The state of a \<open>Dictionary\<close>: its two private fields. A method that writes takes
  the state and gives the state afterwards, together with how the call ended:
  \<open>Returned\<close> when it returned \<open>this\<close>, \<open>Thrown e\<close> when it raised \<open>e\<close> (the writes
  made before the raise stay).
\<close>

record dictionary =
  enGB :: jsobject
  enUS :: jsobject

datatype outcome = Returned | Thrown error

type_synonym WordPair = "jsstring \<times> jsstring"

text \<open>\<open>add({ gb, us })\<close>, source lines 120 to 124.\<close>

definition add :: "dictionary \<Rightarrow> WordPair \<Rightarrow> outcome \<times> dictionary" where
  "add this pair =
     (case pair of (gb, us) \<Rightarrow>
        (case RegExp_new gb (utf16 ''gmi'') of
           Inl e \<Rightarrow> (Thrown e, this)
         | Inr gbRegex \<Rightarrow>
             let this = this\<lparr>enGB := put (enGB this) gb (us, gbRegex)\<rparr>
             in case RegExp_new us (utf16 ''gmi'') of
                  Inl e \<Rightarrow> (Thrown e, this)
                | Inr usRegex \<Rightarrow>
                    (Returned, this\<lparr>enUS := put (enUS this) us (gb, usRegex)\<rparr>)))"

text \<open>\<open>forEach\<close> over pairs calling \<open>add\<close>: the first raise ends the loop.\<close>

fun addEach :: "dictionary \<Rightarrow> WordPair list \<Rightarrow> outcome \<times> dictionary" where
  "addEach this [] = (Returned, this)"
| "addEach this (pair # pairs) =
     (case add this pair of
        (Thrown e, this') \<Rightarrow> (Thrown e, this')
      | (Returned, this') \<Rightarrow> addEach this' pairs)"

text \<open>
  The constructor, source lines 101 to 110. \<open>data\<close> is the table of the module
  \<open>./data.ts\<close>, which is not among the sources: the constructor takes it as a
  parameter, as the list \<open>Object.entries(data)\<close>. A raise leaves no instance.
\<close>

definition Dictionary :: "WordPair list \<Rightarrow> WordPair list \<Rightarrow> error + dictionary" where
  "Dictionary data additions =
     (let this = \<lparr>enGB = emptyObject, enUS = emptyObject\<rparr>
      in case addEach this data of
           (Thrown e, this) \<Rightarrow> Inl e
         | (Returned, this) \<Rightarrow>
             (case addEach this additions of
                (Thrown e, this) \<Rightarrow> Inl e
              | (Returned, this) \<Rightarrow> Inr this))"

text \<open>
  \<open>remove(word, locales)\<close>, source lines 135 to 171. \<open>word.toLocaleLowerCase(locales)\<close>
  depends on the locale data of the host, so the \<open>locales\<close> argument is the
  lowercasing it selects: \<open>toLowerCase\<close> for a locale without rules of its own, and
  for example \<open>toLocaleLowerCase_tr\<close> for Turkish (capital I to dotless i, capital
  dotted I to i). A malformed language tag, for which the host raises RangeError before
  \<open>remove\<close> reads anything, selects no lowercasing and is no argument here.
  \<open>if (gbKey)\<close> holds for a string that is neither undefined nor empty.
\<close>

type_synonym locales = "jsstring \<Rightarrow> jsstring"

definition toLocaleLowerCase_tr :: locales where
  "toLocaleLowerCase_tr s =
     map (\<lambda>c. if c = ch CHR ''I'' then 0x131 else if c = 0x130 then ch CHR ''i''
              else lowerUnit c) s"

definition deleteKey :: "jsobject \<Rightarrow> jsstring option \<Rightarrow> jsobject" where
  "deleteKey obj key =
     (case key of
        None \<Rightarrow> obj
      | Some k \<Rightarrow> if k \<noteq> [] then delete obj k else obj)"

definition remove :: "dictionary \<Rightarrow> jsstring \<Rightarrow> locales \<Rightarrow> dictionary" where
  "remove this word locales =
     (let cleanedWord = locales word
      in if length cleanedWord = 0 then this
         else
           let enGbExact = get (enGB this) word;
               (gbKey, usKey) =
                 (if truthy enGbExact then (Some word, element0 enGbExact)
                  else
                    let enUsExact = get (enUS this) word
                    in if truthy enUsExact then (element0 enUsExact, Some word)
                       else
                         let enGbLower = get (enGB this) cleanedWord
                         in if truthy enGbLower then (Some cleanedWord, element0 enGbLower)
                            else
                              let enUsLower = get (enUS this) cleanedWord
                              in if truthy enUsLower
                                 then (element0 enUsLower, Some cleanedWord)
                                 else (None, None));
               this = this\<lparr>enGB := deleteKey (enGB this) gbKey\<rparr>;
               this = this\<lparr>enUS := deleteKey (enUS this) usKey\<rparr>
           in this)"

text \<open>\<open>entries()\<close>, source lines 184 to 188, as the list the generator yields.\<close>

definition entries :: "dictionary \<Rightarrow> (jsstring \<times> jsstring) list" where
  "entries this = map (\<lambda>(gb, (us, regex)). (gb, us)) (Object_entries (enGB this))"

text \<open>
  \<open>a ?? b\<close> is \<open>b\<close> only when \<open>a\<close> is undefined (no value here is null).
  \<open>#translateGBToUS\<close> and \<open>#translateUSToGB\<close>, source lines 190 to 195 and 215 to 220:
  they write nothing, so they are functions of the state.
\<close>

definition nullish :: "jsvalue \<Rightarrow> jsvalue \<Rightarrow> jsvalue" where
  "nullish a b = (if a = Undefined then b else a)"

definition translateGBToUS :: "dictionary \<Rightarrow> jsstring \<Rightarrow> bool \<Rightarrow> error + jsstring" where
  "translateGBToUS this word flag =
     (let entry = nullish (get (enGB this) word) (get (enGB this) (toLowerCase word))
      in if \<not> truthy entry then Inr word
         else case destructureFirst entry of
                Inl e \<Rightarrow> Inl e
              | Inr us \<Rightarrow> Inr (if flag then matchCase us word else us))"

definition translateUSToGB :: "dictionary \<Rightarrow> jsstring \<Rightarrow> bool \<Rightarrow> error + jsstring" where
  "translateUSToGB this word flag =
     (let entry = nullish (get (enUS this) word) (get (enUS this) (toLowerCase word))
      in if \<not> truthy entry then Inr word
         else case destructureFirst entry of
                Inl e \<Rightarrow> Inl e
              | Inr gb \<Rightarrow> Inr (if flag then matchCase gb word else gb))"

text \<open>
  \<open>gbToUs\<close> and \<open>usToGb\<close>, source lines 208 to 213 and 233 to 238. The argument is
  one word or an array of words; \<open>words.map\<close> stops at the first raise. The result
  comes with the state after the call.
\<close>

datatype words = Word jsstring | Words "jsstring list"

fun mapWords :: "(jsstring \<Rightarrow> error + jsstring) \<Rightarrow> jsstring list \<Rightarrow> error + jsstring list" where
  "mapWords f [] = Inr []"
| "mapWords f (w # ws) =
     (case f w of
        Inl e \<Rightarrow> Inl e
      | Inr t \<Rightarrow> (case mapWords f ws of Inl e \<Rightarrow> Inl e | Inr ts \<Rightarrow> Inr (t # ts)))"

definition gbToUs :: "dictionary \<Rightarrow> words \<Rightarrow> bool \<Rightarrow> (error + words) \<times> dictionary" where
  "gbToUs this ws flag =
     (case ws of
        Words list \<Rightarrow>
          (map_sum id Words (mapWords (\<lambda>word. translateGBToUS this word flag) list), this)
      | Word word \<Rightarrow> (map_sum id Word (translateGBToUS this word flag), this))"

definition usToGb :: "dictionary \<Rightarrow> words \<Rightarrow> bool \<Rightarrow> (error + words) \<times> dictionary" where
  "usToGb this ws flag =
     (case ws of
        Words list \<Rightarrow>
          (map_sum id Words (mapWords (\<lambda>word. translateUSToGB this word flag) list), this)
      | Word word \<Rightarrow> (map_sum id Word (translateUSToGB this word flag), this))"

text \<open>Dictionaries the examples below start from.\<close>

definition emptyDictionary :: dictionary where
  "emptyDictionary = \<lparr>enGB = emptyObject, enUS = emptyObject\<rparr>"

definition colourDictionary :: dictionary where
  "colourDictionary = snd (add emptyDictionary (utf16 ''colour'', utf16 ''color''))"

definition hueDictionary :: dictionary where
  "hueDictionary = snd (add colourDictionary (utf16 ''colour'', utf16 ''hue''))"

definition gaolDictionary :: dictionary where
  "gaolDictionary = snd (add emptyDictionary (utf16 ''Gaol'', utf16 ''Jail''))"

definition emptyKeyDictionary :: dictionary where
  "emptyKeyDictionary = snd (add emptyDictionary ([], utf16 ''x''))"

definition moustacheDictionary :: dictionary where
  "moustacheDictionary = snd (add emptyDictionary (utf16 ''moustache'', utf16 ''mustache''))"

definition emptyValueDictionary :: dictionary where
  "emptyValueDictionary = snd (add emptyDictionary (utf16 ''x'', []))"

definition cafeDictionary :: dictionary where
  "cafeDictionary =
     snd (add emptyDictionary (utf16 ''caf'' @ [0xE9], utf16 ''caf'' @ [0xE9] @ utf16 ''s''))"

definition digitDictionary :: dictionary where
  "digitDictionary = snd (add emptyDictionary (utf16 ''1a'', utf16 ''ab''))"

definition tyreDictionary :: dictionary where
  "tyreDictionary = snd (add emptyDictionary (utf16 ''tyre'', utf16 ''tire''))"

text \<open>
  What the mixed-casing loop pushes at index \<open>i\<close> (source lines 53 to 60), and the
  three tests a pattern has failed when the loop runs (source lines 35 to 47).
\<close>

definition transferCase :: "jsstring \<Rightarrow> jsstring \<Rightarrow> nat \<Rightarrow> jsstring" where
  "transferCase input toMatch i =
     (let src = charAt input i; ref = charAt toMatch i
      in if toLowerCase src = toLowerCase ref
         then (if isRefUpper ref then toUpperCase src else toLowerCase src)
         else src)"

definition mixedPattern :: "jsstring \<Rightarrow> bool" where
  "mixedPattern toMatch =
     (\<not> (charAt toMatch 0 = toUpperCase (charAt toMatch 0) \<and>
         slice_from toMatch 1 = toLowerCase (slice_from toMatch 1)) \<and>
      toMatch \<noteq> toUpperCase toMatch \<and> toMatch \<noteq> toLowerCase toMatch)"

text \<open>
  The claim's words "an uppercase character", read as a cased character in its upper
  form: uppercasing leaves it and lowercasing changes it.
\<close>

definition isUppercaseCharacter :: "code_unit \<Rightarrow> bool" where
  "isUppercaseCharacter c = (toUpperCase [c] = [c] \<and> toLowerCase [c] \<noteq> [c])"

text \<open>
  The claim's words "delete that entry and its paired entry": the GB key and the US
  key go, each from its own index.
\<close>

definition removePair :: "dictionary \<Rightarrow> jsstring \<Rightarrow> jsstring \<Rightarrow> dictionary" where
  "removePair this gbKey usKey =
     this\<lparr>enGB := delete (enGB this) gbKey, enUS := delete (enUS this) usKey\<rparr>"

definition mouldyDictionary :: dictionary where
  "mouldyDictionary = snd (add emptyDictionary (utf16 ''mouldy'', utf16 ''moldy''))"

definition fibreDictionary :: dictionary where
  "fibreDictionary = snd (add emptyDictionary (utf16 ''fibre'', utf16 ''fiber''))"

section \<open>Facts about the model\<close>

lemmas string_eval = utf16_def ch_def charAt_def slice_from_def toUpperCase_def toLowerCase_def
  upperUnits_def lowerUnit_def isRefUpper_def

lemmas pattern_eval = RegExp_new_def pattern_ok_def groupSpecifier_def bracedQuantifier_def
  skipLazy_def characterClass_def classAtom_def groupName_def isDecimalDigit_def apart_def

lemmas names_eval = ObjectPrototype_names_def ArrayPrototype_names_def utf16_def

lemma toLowerCase_Nil [simp]: "toLowerCase [] = []"
  by (simp add: toLowerCase_def)

lemma matchCase_empty_pattern [simp]: "matchCase input [] = input"
  by (simp add: matchCase_def)

lemma get_own: "map_of (own obj) key = Some (word, regex) \<Longrightarrow> get obj key = Entry word regex"
  by (simp add: get_def)

lemma get_constructor:
  "map_of (own obj) (utf16 ''constructor'') = None \<Longrightarrow> get obj (utf16 ''constructor'') = Object"
  by (simp add: get_def names_eval split: option.splits)

lemma get_empty_key: "map_of (own obj) [] = None \<Longrightarrow> get obj [] = Undefined"
  by (simp add: get_def names_eval split: option.splits)

lemma get_gaol:
  "map_of (own obj) (utf16 ''gaol'') = None \<Longrightarrow> get obj (utf16 ''gaol'') = Undefined"
  by (simp add: get_def names_eval split: option.splits)

lemma own_put_same:
  "map_of (own obj) key \<noteq> None \<Longrightarrow> map_of (own (put obj key entry)) key = Some entry"
  by (auto simp: put_def update_conv')

lemma own_put_other:
  "k \<noteq> key \<Longrightarrow> map_of (own (put obj key entry)) k = map_of (own obj) k"
  by (simp add: put_def update_conv')

lemma add_Returned:
  assumes "add this (g, u) = (Returned, this')"
  shows "\<exists>r1 r2. this' =
           this\<lparr>enGB := put (enGB this) g (u, r1), enUS := put (enUS this) u (g, r2)\<rparr>"
  using assms by (auto simp: add_def Let_def split: sum.splits)

lemma translateGBToUS_own:
  "map_of (own (enGB this)) word = Some (us, regex) \<Longrightarrow>
   translateGBToUS this word flag = Inr (if flag then matchCase us word else us)"
  by (simp add: translateGBToUS_def get_own nullish_def truthy_def destructureFirst_def)

lemma translateUSToGB_own:
  "map_of (own (enUS this)) word = Some (gb, regex) \<Longrightarrow>
   translateUSToGB this word flag = Inr (if flag then matchCase gb word else gb)"
  by (simp add: translateUSToGB_def get_own nullish_def truthy_def destructureFirst_def)

lemma translateGBToUS_constructor:
  "map_of (own (enGB this)) (utf16 ''constructor'') = None \<Longrightarrow>
   translateGBToUS this (utf16 ''constructor'') flag = Inl TypeError"
  by (simp add: translateGBToUS_def get_constructor nullish_def truthy_def destructureFirst_def)

lemma translateUSToGB_constructor:
  "map_of (own (enUS this)) (utf16 ''constructor'') = None \<Longrightarrow>
   translateUSToGB this (utf16 ''constructor'') flag = Inl TypeError"
  by (simp add: translateUSToGB_def get_constructor nullish_def truthy_def destructureFirst_def)

lemma add_colour:
  "add emptyDictionary (utf16 ''colour'', utf16 ''color'') = (Returned, colourDictionary)"
  by (simp add: colourDictionary_def add_def pattern_eval utf16_def ch_def)

lemma colourDictionary_eq:
  "colourDictionary =
     \<lparr>enGB = \<lparr>own = [(utf16 ''colour'', utf16 ''color'',
                       RegExp (utf16 ''colour'') (utf16 ''gmi''))], proto = None\<rparr>,
      enUS = \<lparr>own = [(utf16 ''color'', utf16 ''colour'',
                       RegExp (utf16 ''color'') (utf16 ''gmi''))], proto = None\<rparr>\<rparr>"
  by (simp add: colourDictionary_def add_def pattern_eval utf16_def ch_def emptyDictionary_def
      emptyObject_def put_def)

lemma add_hue:
  "add colourDictionary (utf16 ''colour'', utf16 ''hue'') = (Returned, hueDictionary)"
  by (simp add: hueDictionary_def add_def pattern_eval utf16_def ch_def)

lemma Dictionary_colour:
  "Dictionary [(utf16 ''colour'', utf16 ''color'')] [] = Inr colourDictionary"
  by (simp add: Dictionary_def emptyDictionary_def [symmetric] add_colour)

lemma Dictionary_hue:
  "Dictionary [(utf16 ''colour'', utf16 ''color'')] [(utf16 ''colour'', utf16 ''hue'')] =
     Inr hueDictionary"
  by (simp add: Dictionary_def emptyDictionary_def [symmetric] add_colour add_hue)

lemma add_cafe:
  "add emptyDictionary (utf16 ''caf'' @ [0xE9], utf16 ''caf'' @ [0xE9] @ utf16 ''s'') =
     (Returned, cafeDictionary)"
  by (simp add: cafeDictionary_def add_def pattern_eval utf16_def ch_def)

lemma cafeDictionary_eq:
  "cafeDictionary =
     \<lparr>enGB = \<lparr>own = [(utf16 ''caf'' @ [0xE9], utf16 ''caf'' @ [0xE9] @ utf16 ''s'',
                       RegExp (utf16 ''caf'' @ [0xE9]) (utf16 ''gmi''))], proto = None\<rparr>,
      enUS = \<lparr>own = [(utf16 ''caf'' @ [0xE9] @ utf16 ''s'', utf16 ''caf'' @ [0xE9],
                       RegExp (utf16 ''caf'' @ [0xE9] @ utf16 ''s'') (utf16 ''gmi''))],
               proto = None\<rparr>\<rparr>"
  by (simp add: cafeDictionary_def add_def pattern_eval utf16_def ch_def emptyDictionary_def
      emptyObject_def put_def)

lemma add_digit:
  "add emptyDictionary (utf16 ''1a'', utf16 ''ab'') = (Returned, digitDictionary)"
  by (simp add: digitDictionary_def add_def pattern_eval utf16_def ch_def)

lemma digitDictionary_eq:
  "digitDictionary =
     \<lparr>enGB = \<lparr>own = [(utf16 ''1a'', utf16 ''ab'',
                       RegExp (utf16 ''1a'') (utf16 ''gmi''))], proto = None\<rparr>,
      enUS = \<lparr>own = [(utf16 ''ab'', utf16 ''1a'',
                       RegExp (utf16 ''ab'') (utf16 ''gmi''))], proto = None\<rparr>\<rparr>"
  by (simp add: digitDictionary_def add_def pattern_eval utf16_def ch_def emptyDictionary_def
      emptyObject_def put_def)

lemma add_gaol:
  "add emptyDictionary (utf16 ''Gaol'', utf16 ''Jail'') = (Returned, gaolDictionary)"
  by (simp add: gaolDictionary_def add_def pattern_eval utf16_def ch_def)

lemma gaolDictionary_eq:
  "gaolDictionary =
     \<lparr>enGB = \<lparr>own = [(utf16 ''Gaol'', utf16 ''Jail'',
                       RegExp (utf16 ''Gaol'') (utf16 ''gmi''))], proto = None\<rparr>,
      enUS = \<lparr>own = [(utf16 ''Jail'', utf16 ''Gaol'',
                       RegExp (utf16 ''Jail'') (utf16 ''gmi''))], proto = None\<rparr>\<rparr>"
  by (simp add: gaolDictionary_def add_def pattern_eval utf16_def ch_def emptyDictionary_def
      emptyObject_def put_def)

lemma add_empty_key:
  "add emptyDictionary ([], utf16 ''x'') = (Returned, emptyKeyDictionary)"
  by (simp add: emptyKeyDictionary_def add_def pattern_eval utf16_def ch_def)

lemma emptyKeyDictionary_eq:
  "emptyKeyDictionary =
     \<lparr>enGB = \<lparr>own = [([], utf16 ''x'', RegExp [] (utf16 ''gmi''))], proto = None\<rparr>,
      enUS = \<lparr>own = [(utf16 ''x'', [], RegExp (utf16 ''x'') (utf16 ''gmi''))], proto = None\<rparr>\<rparr>"
  by (simp add: emptyKeyDictionary_def add_def pattern_eval utf16_def ch_def emptyDictionary_def
      emptyObject_def put_def)

lemma matchCase_loop_eq:
  "matchCase_loop input toMatch lastIdx i out =
     out @ map (transferCase input toMatch) [i..<lastIdx]"
proof (induction input toMatch lastIdx i out rule: matchCase_loop.induct)
  case (1 input toMatch lastIdx i out)
  show ?case
  proof (cases "i < lastIdx")
    case True
    then have upt: "[i..<lastIdx] = i # [Suc i..<lastIdx]"
      by (simp add: upt_conv_Cons)
    show ?thesis
      using True "1.IH" [OF True refl refl]
      by (subst matchCase_loop.simps) (simp add: upt transferCase_def Let_def)
  next
    case False
    then show ?thesis
      by (subst matchCase_loop.simps) simp
  qed
qed

lemma matchCase_mixed:
  assumes "input \<noteq> []" "toMatch \<noteq> []" "mixedPattern toMatch"
  shows "matchCase input toMatch =
     concat (map (transferCase input toMatch) [0..<min (length input) (length toMatch)]) @
     (if length toMatch < length input then slice_from input (length toMatch) else [])"
proof -
  have e: "\<not> (length input = 0 \<or> length toMatch = 0)"
    using assms(1,2) by simp
  have t: "\<not> (charAt toMatch 0 = toUpperCase (charAt toMatch 0) \<and>
      slice_from toMatch 1 = toLowerCase (slice_from toMatch 1))"
    and u: "\<not> toMatch = toUpperCase toMatch" and l: "\<not> toMatch = toLowerCase toMatch"
    using assms(3) by (simp_all only: mixedPattern_def simp_thms)
  have "matchCase input toMatch =
      concat (if length toMatch < length input
              then matchCase_loop input toMatch (min (length input) (length toMatch)) 0 [] @
                   [slice_from input (length toMatch)]
              else matchCase_loop input toMatch (min (length input) (length toMatch)) 0 [])"
    by (simp only: matchCase_def Let_def e t u l if_False)
  then show ?thesis
    by (simp only: matchCase_loop_eq) simp
qed

lemma unat_lowerUnit:
  "unat (lowerUnit c) =
     (if (65 \<le> unat c \<and> unat c \<le> 90) \<or> (192 \<le> unat c \<and> unat c \<le> 222 \<and> unat c \<noteq> 215)
      then unat c + 32 else unat c)"
proof -
  have add: "unat c \<le> 222 \<Longrightarrow> unat (c + 0x20) = unat c + 32"
    by (simp add: unat_word_ariths)
  show ?thesis
    by (auto simp: lowerUnit_def word_le_nat_alt word_unat_eq_iff add)
qed

lemma upperUnits_unat:
  "upperUnits c =
     (if (97 \<le> unat c \<and> unat c \<le> 122) \<or> (224 \<le> unat c \<and> unat c \<le> 254 \<and> unat c \<noteq> 247)
      then [c - 0x20]
      else if unat c = 223 then [0x53, 0x53]
      else if unat c = 255 then [0x178]
      else if unat c = 181 then [0x39C]
      else [c])"
  by (simp add: upperUnits_def word_le_nat_alt word_unat_eq_iff)

lemma upperUnits_of_ascii_match:
  assumes "lowerUnit c = lowerUnit p" "0x41 \<le> p" "p \<le> 0x5A"
  shows "upperUnits c = [p]"
proof -
  have p: "65 \<le> unat p" "unat p \<le> 90"
    using assms(2,3) by (simp_all add: word_le_nat_alt)
  have "unat (lowerUnit c) = unat (lowerUnit p)"
    using assms(1) by simp
  then have c: "unat c = unat p \<or> unat c = unat p + 32"
    using p by (simp add: unat_lowerUnit split: if_splits)
  show ?thesis
  proof (cases "unat c = unat p")
    case True
    then have "c = p" by (simp add: word_unat_eq_iff)
    then show ?thesis using p by (simp add: upperUnits_unat)
  next
    case False
    with c have e: "unat c = unat p + 32" by simp
    have "unat (c - 0x20) = unat c - 32"
      using e by (simp add: unat_sub word_le_nat_alt)
    then have "c - 0x20 = p" using e by (simp add: word_unat_eq_iff)
    then show ?thesis using p e by (simp add: upperUnits_unat)
  qed
qed

lemma isRefUpper_unit: "isRefUpper [p] = (0x41 \<le> p \<and> p \<le> 0x5A)"
  by (auto simp: isRefUpper_def utf16_def)

lemma transferCase_at:
  assumes "i < length input" "i < length toMatch"
  shows "transferCase input toMatch i =
     (if lowerUnit (input ! i) = lowerUnit (toMatch ! i)
      then (if 0x41 \<le> toMatch ! i \<and> toMatch ! i \<le> 0x5A then upperUnits (input ! i)
            else [lowerUnit (input ! i)])
      else [input ! i])"
  using assms
  by (simp add: transferCase_def Let_def charAt_def toLowerCase_def toUpperCase_def
      isRefUpper_unit)

lemma transferCase_unit:
  assumes "i < length input" "i < length toMatch"
  shows "\<exists>u. transferCase input toMatch i = [u]"
proof (cases "lowerUnit (input ! i) = lowerUnit (toMatch ! i) \<and>
    0x41 \<le> toMatch ! i \<and> toMatch ! i \<le> 0x5A")
  case True
  then have "upperUnits (input ! i) = [toMatch ! i]"
    by (intro upperUnits_of_ascii_match) simp_all
  with True show ?thesis
    by (simp only: transferCase_at [OF assms] if_True) simp
next
  case False
  then show ?thesis
    by (simp only: transferCase_at [OF assms] split: if_splits) auto
qed

lemma concat_units:
  "(\<forall>x \<in> set xs. \<exists>u. x = [u]) \<Longrightarrow>
   length (concat xs) = length xs \<and> (\<forall>j < length xs. [concat xs ! j] = xs ! j)"
proof (induction xs)
  case Nil
  then show ?case by simp
next
  case (Cons x xs)
  then obtain u where x: "x = [u]" by auto
  from Cons have IH: "length (concat xs) = length xs \<and> (\<forall>j < length xs. [concat xs ! j] = xs ! j)"
    by simp
  show ?case
  proof (intro conjI allI impI)
    show "length (concat (x # xs)) = length (x # xs)" using IH x by simp
  next
    fix j assume "j < length (x # xs)"
    then show "[concat (x # xs) ! j] = (x # xs) ! j"
      using IH x by (cases j) simp_all
  qed
qed

lemma mouldyDictionary_eq:
  "mouldyDictionary =
     \<lparr>enGB = \<lparr>own = [(utf16 ''mouldy'', utf16 ''moldy'',
                       RegExp (utf16 ''mouldy'') (utf16 ''gmi''))], proto = None\<rparr>,
      enUS = \<lparr>own = [(utf16 ''moldy'', utf16 ''mouldy'',
                       RegExp (utf16 ''moldy'') (utf16 ''gmi''))], proto = None\<rparr>\<rparr>"
  by (simp add: mouldyDictionary_def add_def pattern_eval utf16_def ch_def emptyDictionary_def
      emptyObject_def put_def)

lemma fibreDictionary_eq:
  "fibreDictionary =
     \<lparr>enGB = \<lparr>own = [(utf16 ''fibre'', utf16 ''fiber'',
                       RegExp (utf16 ''fibre'') (utf16 ''gmi''))], proto = None\<rparr>,
      enUS = \<lparr>own = [(utf16 ''fiber'', utf16 ''fibre'',
                       RegExp (utf16 ''fiber'') (utf16 ''gmi''))], proto = None\<rparr>\<rparr>"
  by (simp add: fibreDictionary_def add_def pattern_eval utf16_def ch_def emptyDictionary_def
      emptyObject_def put_def)

lemma moustacheDictionary_eq:
  "moustacheDictionary =
     \<lparr>enGB = \<lparr>own = [(utf16 ''moustache'', utf16 ''mustache'',
                       RegExp (utf16 ''moustache'') (utf16 ''gmi''))], proto = None\<rparr>,
      enUS = \<lparr>own = [(utf16 ''mustache'', utf16 ''moustache'',
                       RegExp (utf16 ''mustache'') (utf16 ''gmi''))], proto = None\<rparr>\<rparr>"
  by (simp add: moustacheDictionary_def add_def pattern_eval utf16_def ch_def emptyDictionary_def
      emptyObject_def put_def)

lemma emptyValueDictionary_eq:
  "emptyValueDictionary =
     \<lparr>enGB = \<lparr>own = [(utf16 ''x'', [], RegExp (utf16 ''x'') (utf16 ''gmi''))], proto = None\<rparr>,
      enUS = \<lparr>own = [([], utf16 ''x'', RegExp [] (utf16 ''gmi''))], proto = None\<rparr>\<rparr>"
  by (simp add: emptyValueDictionary_def add_def pattern_eval utf16_def ch_def
      emptyDictionary_def emptyObject_def put_def)

lemma own_delete:
  "map_of (own (delete obj key)) k = (if k = key then None else map_of (own obj) k)"
  by (simp add: delete_def delete_conv')

lemma remove_empty_cleaned: "locales word = [] \<Longrightarrow> remove this word locales = this"
  by (simp add: remove_def)

lemma remove_gb_exact:
  assumes "word \<noteq> []" "locales word \<noteq> []"
    and "map_of (own (enGB this)) word = Some (us, r)" "us \<noteq> []"
  shows "remove this word locales = removePair this word us"
  using assms
  by (simp add: remove_def Let_def get_own truthy_def element0_def deleteKey_def removePair_def)

lemma remove_us_exact:
  assumes "word \<noteq> []" "locales word \<noteq> []" "get (enGB this) word = Undefined"
    and "map_of (own (enUS this)) word = Some (gb, r)" "gb \<noteq> []"
  shows "remove this word locales = removePair this gb word"
  using assms
  by (simp add: remove_def Let_def get_own truthy_def element0_def deleteKey_def removePair_def)

lemma remove_gb_lower:
  assumes "locales word \<noteq> []" "get (enGB this) word = Undefined"
    and "get (enUS this) word = Undefined"
    and "map_of (own (enGB this)) (locales word) = Some (us, r)" "us \<noteq> []"
  shows "remove this word locales = removePair this (locales word) us"
  using assms
  by (simp add: remove_def Let_def get_own truthy_def element0_def deleteKey_def removePair_def)

lemma remove_us_lower:
  assumes "locales word \<noteq> []" "get (enGB this) word = Undefined"
    and "get (enUS this) word = Undefined" "get (enGB this) (locales word) = Undefined"
    and "map_of (own (enUS this)) (locales word) = Some (gb, r)" "gb \<noteq> []"
  shows "remove this word locales = removePair this gb (locales word)"
  using assms
  by (simp add: remove_def Let_def get_own truthy_def element0_def deleteKey_def removePair_def)

lemma remove_no_match:
  assumes "get (enGB this) word = Undefined" "get (enUS this) word = Undefined"
    and "get (enGB this) (locales word) = Undefined"
    and "get (enUS this) (locales word) = Undefined"
  shows "remove this word locales = this"
  using assms by (simp add: remove_def Let_def truthy_def deleteKey_def)

lemma upperUnits_hd:
  "hd (upperUnits c) = c \<Longrightarrow> upperUnits c = [c]"
proof -
  assume h: "hd (upperUnits c) = c"
  have ne: "c - 0x20 \<noteq> c" by simp
  show ?thesis
    using h ne by (auto simp: upperUnits_def split: if_splits)
qed

lemma toUpperCase_fixed_head:
  assumes "toMatch = toUpperCase toMatch" "toMatch \<noteq> []"
  shows "charAt toMatch 0 = toUpperCase (charAt toMatch 0)"
proof -
  from assms(2) obtain c cs where m: "toMatch = c # cs" by (cases toMatch) auto
  have ne: "upperUnits c \<noteq> []" by (simp add: upperUnits_def)
  have "c # cs = upperUnits c @ toUpperCase cs"
    using assms(1) by (simp add: m toUpperCase_def)
  then have "hd (upperUnits c) = c"
    using ne by (cases "upperUnits c") auto
  then have "upperUnits c = [c]" by (rule upperUnits_hd)
  then show ?thesis by (simp add: m charAt_def toUpperCase_def)
qed

lemma tyreDictionary_eq:
  "tyreDictionary =
     \<lparr>enGB = \<lparr>own = [(utf16 ''tyre'', utf16 ''tire'',
                       RegExp (utf16 ''tyre'') (utf16 ''gmi''))], proto = None\<rparr>,
      enUS = \<lparr>own = [(utf16 ''tire'', utf16 ''tyre'',
                       RegExp (utf16 ''tire'') (utf16 ''gmi''))], proto = None\<rparr>\<rparr>"
  by (simp add: tyreDictionary_def add_def pattern_eval utf16_def ch_def emptyDictionary_def
      emptyObject_def put_def)

section \<open>The claims\<close>

text \<open>
  C1 (the code departs from it). The claim: translation looks the word up as an exact
  key, then its lowercase form, and returns the word unchanged when neither is
  present. The lookup \<open>this.#enGB[word]\<close> also answers for the names a plain object
  inherits. For the word \<open>constructor\<close>, which no pair stores, it yields the inherited
  function, which is truthy and not iterable, so \<open>const [us] = entry\<close> raises
  TypeError instead of the word coming back. Both directions, evaluated on a
  dictionary that holds the one pair colour/color.
\<close>

theorem C1_unknown_word_constructor_raises:
  "Dictionary [(utf16 ''colour'', utf16 ''color'')] [] = Inr colourDictionary \<and>
   map_of (own (enGB colourDictionary)) (utf16 ''constructor'') = None \<and>
   map_of (own (enGB colourDictionary)) (toLowerCase (utf16 ''constructor'')) = None \<and>
   gbToUs colourDictionary (Word (utf16 ''constructor'')) True = (Inl TypeError, colourDictionary) \<and>
   gbToUs colourDictionary (Word (utf16 ''constructor'')) False = (Inl TypeError, colourDictionary) \<and>
   usToGb colourDictionary (Word (utf16 ''constructor'')) True = (Inl TypeError, colourDictionary)"
proof -
  have gb: "map_of (own (enGB colourDictionary)) (utf16 ''constructor'') = None"
    by (simp add: colourDictionary_eq utf16_def)
  have us: "map_of (own (enUS colourDictionary)) (utf16 ''constructor'') = None"
    by (simp add: colourDictionary_eq utf16_def)
  have low: "toLowerCase (utf16 ''constructor'') = utf16 ''constructor''"
    by (simp add: string_eval)
  show ?thesis
    using gb by (simp add: low gbToUs_def usToGb_def translateGBToUS_constructor [OF gb]
        translateUSToGB_constructor [OF us] Dictionary_colour)
qed

text \<open>
  C2 (the code departs from it). The claim: on a mixed pattern, where candidate and
  pattern agree at an index ignoring case, the candidate's character becomes
  uppercase if the pattern's is an uppercase character, and lowercase otherwise. The
  loop finds the two equal with \<open>toLowerCase\<close>, which knows every letter, but then
  asks \<open>ref >= "A" && ref <= "Z"\<close>, so an uppercase letter outside A to Z counts as
  lowercase and its case is not transferred. For the pattern \<open>cAF\<close> followed by
  U+00C9 and the candidate \<open>caf\<close> followed by U+00E9, the two agree at index 3
  ignoring case and U+00C9 is uppercase, yet the result keeps U+00E9 there, while
  the all-uppercase pattern \<open>CAF\<close> followed by U+00C9 does uppercase it; the same
  through \<open>gbToUs\<close> after \<open>add\<close> of a pair under the lowercase key.
\<close>

theorem C2_uppercase_beyond_ascii_is_not_mirrored:
  "mixedPattern (utf16 ''cAF'' @ [0xC9]) \<and>
   toLowerCase (charAt (utf16 ''caf'' @ [0xE9]) 3) =
     toLowerCase (charAt (utf16 ''cAF'' @ [0xC9]) 3) \<and>
   isUppercaseCharacter ((utf16 ''cAF'' @ [0xC9]) ! 3) \<and>
   toUpperCase (charAt (utf16 ''caf'' @ [0xE9]) 3) = [0xC9] \<and>
   charAt (matchCase (utf16 ''caf'' @ [0xE9]) (utf16 ''cAF'' @ [0xC9])) 3 = [0xE9] \<and>
   charAt (matchCase (utf16 ''caf'' @ [0xE9]) (utf16 ''cAF'' @ [0xC9])) 3 \<noteq>
     toUpperCase (charAt (utf16 ''caf'' @ [0xE9]) 3) \<and>
   matchCase (utf16 ''caf'' @ [0xE9]) (utf16 ''cAF'' @ [0xC9]) = utf16 ''cAF'' @ [0xE9] \<and>
   matchCase (utf16 ''caf'' @ [0xE9]) (utf16 ''CAF'' @ [0xC9]) = utf16 ''CAF'' @ [0xC9] \<and>
   add emptyDictionary (utf16 ''caf'' @ [0xE9], utf16 ''caf'' @ [0xE9] @ utf16 ''s'') =
     (Returned, cafeDictionary) \<and>
   gbToUs cafeDictionary (Word (utf16 ''cAF'' @ [0xC9])) True =
     (Inr (Word (utf16 ''cAF'' @ [0xE9] @ utf16 ''s'')), cafeDictionary)"
proof -
  have whole: "matchCase (utf16 ''caf'' @ [0xE9]) (utf16 ''cAF'' @ [0xC9]) = utf16 ''cAF'' @ [0xE9]"
    by (simp add: matchCase_def string_eval Let_def)
  have "mixedPattern (utf16 ''cAF'' @ [0xC9])"
    by (simp add: mixedPattern_def string_eval)
  moreover have "toLowerCase (charAt (utf16 ''caf'' @ [0xE9]) 3) =
      toLowerCase (charAt (utf16 ''cAF'' @ [0xC9]) 3)"
    by (simp add: string_eval)
  moreover have "isUppercaseCharacter ((utf16 ''cAF'' @ [0xC9]) ! 3)"
    by (simp add: isUppercaseCharacter_def string_eval)
  moreover have "toUpperCase (charAt (utf16 ''caf'' @ [0xE9]) 3) = [0xC9]"
    by (simp add: string_eval)
  moreover have "charAt (matchCase (utf16 ''caf'' @ [0xE9]) (utf16 ''cAF'' @ [0xC9])) 3 = [0xE9]"
    by (simp only: whole) (simp add: string_eval)
  moreover have "charAt (matchCase (utf16 ''caf'' @ [0xE9]) (utf16 ''cAF'' @ [0xC9])) 3 \<noteq>
      toUpperCase (charAt (utf16 ''caf'' @ [0xE9]) 3)"
    by (simp only: whole) (simp add: string_eval)
  moreover note whole
  moreover have "matchCase (utf16 ''caf'' @ [0xE9]) (utf16 ''CAF'' @ [0xC9]) =
      utf16 ''CAF'' @ [0xC9]"
    by (simp add: matchCase_def string_eval Let_def)
  moreover note add_cafe
  moreover have "gbToUs cafeDictionary (Word (utf16 ''cAF'' @ [0xC9])) True =
      (Inr (Word (utf16 ''cAF'' @ [0xE9] @ utf16 ''s'')), cafeDictionary)"
  proof -
    have low: "toLowerCase (utf16 ''cAF'' @ [0xC9]) = utf16 ''caf'' @ [0xE9]"
      by (simp add: string_eval)
    have miss: "get (enGB cafeDictionary) (utf16 ''cAF'' @ [0xC9]) = Undefined"
      by (simp add: cafeDictionary_eq get_def names_eval)
    have hit: "get (enGB cafeDictionary) (utf16 ''caf'' @ [0xE9]) =
        Entry (utf16 ''caf'' @ [0xE9] @ utf16 ''s'') (RegExp (utf16 ''caf'' @ [0xE9]) (utf16 ''gmi''))"
      by (simp add: cafeDictionary_eq get_def)
    have "translateGBToUS cafeDictionary (utf16 ''cAF'' @ [0xC9]) True =
        Inr (utf16 ''cAF'' @ [0xE9] @ utf16 ''s'')"
      by (simp only: translateGBToUS_def low miss hit Let_def)
        (simp add: nullish_def truthy_def destructureFirst_def matchCase_def string_eval Let_def)
    then show ?thesis by (simp add: gbToUs_def)
  qed
  ultimately show ?thesis
    by (intro conjI) assumption+
qed

text \<open>
  C3 (amended). The claim: \<open>remove\<close> resolves the word as an exact GB key, else an
  exact US key, else its lowercased form as a GB key, else as a US key, and deletes
  the matched entry and its counterpart. \<open>remove\<close> first returns when the lowercased
  word is empty, so an entry stored under the empty key is never removed: after
  \<open>add({gb: "", us: "x"})\<close>, \<open>remove("")\<close> leaves the GB entry of the empty key.
\<close>

theorem C3_empty_word_entry_is_not_removed:
  "add emptyDictionary ([], utf16 ''x'') = (Returned, emptyKeyDictionary) \<and>
   map_of (own (enGB emptyKeyDictionary)) [] = Some (utf16 ''x'', RegExp [] (utf16 ''gmi'')) \<and>
   remove emptyKeyDictionary [] toLowerCase = emptyKeyDictionary \<and>
   map_of (own (enGB (remove emptyKeyDictionary [] toLowerCase))) [] \<noteq> None \<and>
   map_of (own (enUS (remove emptyKeyDictionary [] toLowerCase))) (utf16 ''x'') \<noteq> None"
proof -
  have same: "remove emptyKeyDictionary [] toLowerCase = emptyKeyDictionary"
    by (simp add: remove_def)
  show ?thesis
    by (simp only: same add_empty_key) (simp add: emptyKeyDictionary_eq)
qed

text \<open>
  C3 as amended. When the lowercased word is empty, \<open>remove\<close> changes nothing.
  Otherwise, counting a key as absent from an index when \<open>obj[key]\<close> is undefined
  (it is neither stored nor a name the object inherits), \<open>remove\<close> resolves in this
  order: the word as a stored GB key; else as a stored US key; else its lowercased
  form as a stored GB key; else as a stored US key; else it changes nothing. On a
  match whose key and counterpart are not empty it deletes that key from its index
  and the counterpart from the other index, and no other entry of either index.
\<close>

theorem C3_remove_resolution_order:
  "(locales word = [] \<longrightarrow> remove this word locales = this) \<and>
   (word \<noteq> [] \<and> locales word \<noteq> [] \<and>
    map_of (own (enGB this)) word = Some (us, r) \<and> us \<noteq> [] \<longrightarrow>
      remove this word locales = removePair this word us) \<and>
   (word \<noteq> [] \<and> locales word \<noteq> [] \<and> get (enGB this) word = Undefined \<and>
    map_of (own (enUS this)) word = Some (gb, r) \<and> gb \<noteq> [] \<longrightarrow>
      remove this word locales = removePair this gb word) \<and>
   (locales word \<noteq> [] \<and> get (enGB this) word = Undefined \<and> get (enUS this) word = Undefined \<and>
    map_of (own (enGB this)) (locales word) = Some (us, r) \<and> us \<noteq> [] \<longrightarrow>
      remove this word locales = removePair this (locales word) us) \<and>
   (locales word \<noteq> [] \<and> get (enGB this) word = Undefined \<and> get (enUS this) word = Undefined \<and>
    get (enGB this) (locales word) = Undefined \<and>
    map_of (own (enUS this)) (locales word) = Some (gb, r) \<and> gb \<noteq> [] \<longrightarrow>
      remove this word locales = removePair this gb (locales word)) \<and>
   (get (enGB this) word = Undefined \<and> get (enUS this) word = Undefined \<and>
    get (enGB this) (locales word) = Undefined \<and> get (enUS this) (locales word) = Undefined \<longrightarrow>
      remove this word locales = this) \<and>
   (\<forall>k. map_of (own (enGB (removePair this g u))) k =
          (if k = g then None else map_of (own (enGB this)) k) \<and>
        map_of (own (enUS (removePair this g u))) k =
          (if k = u then None else map_of (own (enUS this)) k)) \<and>
   proto (enGB (removePair this g u)) = proto (enGB this) \<and>
   proto (enUS (removePair this g u)) = proto (enUS this)"
proof -
  have s0: "locales word = [] \<longrightarrow> remove this word locales = this"
    by (simp add: remove_empty_cleaned)
  have s1: "word \<noteq> [] \<and> locales word \<noteq> [] \<and>
      map_of (own (enGB this)) word = Some (us, r) \<and> us \<noteq> [] \<longrightarrow>
      remove this word locales = removePair this word us"
    using remove_gb_exact by blast
  have s2: "word \<noteq> [] \<and> locales word \<noteq> [] \<and> get (enGB this) word = Undefined \<and>
      map_of (own (enUS this)) word = Some (gb, r) \<and> gb \<noteq> [] \<longrightarrow>
      remove this word locales = removePair this gb word"
    using remove_us_exact by blast
  have s3: "locales word \<noteq> [] \<and> get (enGB this) word = Undefined \<and>
      get (enUS this) word = Undefined \<and>
      map_of (own (enGB this)) (locales word) = Some (us, r) \<and> us \<noteq> [] \<longrightarrow>
      remove this word locales = removePair this (locales word) us"
    using remove_gb_lower by blast
  have s4: "locales word \<noteq> [] \<and> get (enGB this) word = Undefined \<and>
      get (enUS this) word = Undefined \<and> get (enGB this) (locales word) = Undefined \<and>
      map_of (own (enUS this)) (locales word) = Some (gb, r) \<and> gb \<noteq> [] \<longrightarrow>
      remove this word locales = removePair this gb (locales word)"
    using remove_us_lower by blast
  have s5: "get (enGB this) word = Undefined \<and> get (enUS this) word = Undefined \<and>
      get (enGB this) (locales word) = Undefined \<and>
      get (enUS this) (locales word) = Undefined \<longrightarrow>
      remove this word locales = this"
    using remove_no_match by blast
  have frame: "\<forall>k. map_of (own (enGB (removePair this g u))) k =
          (if k = g then None else map_of (own (enGB this)) k) \<and>
        map_of (own (enUS (removePair this g u))) k =
          (if k = u then None else map_of (own (enUS this)) k)"
    by (simp add: removePair_def own_delete)
  have p1: "proto (enGB (removePair this g u)) = proto (enGB this)"
    by (simp add: removePair_def delete_def)
  have p2: "proto (enUS (removePair this g u)) = proto (enUS this)"
    by (simp add: removePair_def delete_def)
  show ?thesis
    using s0 s1 s2 s3 s4 s5 frame p1 p2 by (intro conjI) assumption+
qed

theorem C3_witness:
  "toLowerCase (utf16 ''MOULDY'') = utf16 ''mouldy'' \<and>
   remove mouldyDictionary (utf16 ''MOULDY'') toLowerCase = emptyDictionary \<and>
   gbToUs emptyDictionary (Word (utf16 ''mouldy'')) True =
     (Inr (Word (utf16 ''mouldy'')), emptyDictionary) \<and>
   usToGb emptyDictionary (Word (utf16 ''moldy'')) True =
     (Inr (Word (utf16 ''moldy'')), emptyDictionary) \<and>
   toLocaleLowerCase_tr (utf16 ''FIBRE'') = [0x66, 0x131, 0x62, 0x72, 0x65] \<and>
   remove fibreDictionary (utf16 ''FIBRE'') toLocaleLowerCase_tr = fibreDictionary \<and>
   remove fibreDictionary (utf16 ''fiber'') toLowerCase = emptyDictionary \<and>
   remove fibreDictionary (utf16 ''fibre'') toLowerCase = emptyDictionary \<and>
   remove moustacheDictionary (utf16 ''Mustache'') toLowerCase = emptyDictionary \<and>
   remove fibreDictionary [] toLowerCase = fibreDictionary"
proof -
  let ?m = "RegExp (utf16 ''mouldy'') (utf16 ''gmi'')"
  have low: "toLowerCase (utf16 ''MOULDY'') = utf16 ''mouldy''"
    by (simp add: string_eval)
  have ne: "toLowerCase (utf16 ''MOULDY'') \<noteq> []" "utf16 ''moldy'' \<noteq> []"
    by (simp_all add: low) (simp_all add: utf16_def)
  have g1: "get (enGB mouldyDictionary) (utf16 ''MOULDY'') = Undefined"
    by (simp add: mouldyDictionary_eq get_def names_eval)
  have g2: "get (enUS mouldyDictionary) (utf16 ''MOULDY'') = Undefined"
    by (simp add: mouldyDictionary_eq get_def names_eval)
  have g3: "map_of (own (enGB mouldyDictionary)) (toLowerCase (utf16 ''MOULDY'')) =
      Some (utf16 ''moldy'', ?m)"
    by (simp only: low) (simp add: mouldyDictionary_eq)
  have "remove mouldyDictionary (utf16 ''MOULDY'') toLowerCase =
      removePair mouldyDictionary (toLowerCase (utf16 ''MOULDY'')) (utf16 ''moldy'')"
    using C3_remove_resolution_order [where this = mouldyDictionary and word = "utf16 ''MOULDY''"
        and locales = toLowerCase and us = "utf16 ''moldy''" and r = ?m] ne g1 g2 g3
    by blast
  also have "\<dots> = emptyDictionary"
    by (simp only: low)
      (simp add: removePair_def delete_def mouldyDictionary_eq emptyDictionary_def
        emptyObject_def utf16_def)
  finally have mouldy: "remove mouldyDictionary (utf16 ''MOULDY'') toLowerCase = emptyDictionary" .
  have pass1: "gbToUs emptyDictionary (Word (utf16 ''mouldy'')) True =
      (Inr (Word (utf16 ''mouldy'')), emptyDictionary)"
    by (simp add: gbToUs_def translateGBToUS_def get_def nullish_def truthy_def
        emptyDictionary_def emptyObject_def names_eval toLowerCase_def lowerUnit_def)
  have pass2: "usToGb emptyDictionary (Word (utf16 ''moldy'')) True =
      (Inr (Word (utf16 ''moldy'')), emptyDictionary)"
    by (simp add: usToGb_def translateUSToGB_def get_def nullish_def truthy_def
        emptyDictionary_def emptyObject_def names_eval toLowerCase_def lowerUnit_def)
  have tr: "toLocaleLowerCase_tr (utf16 ''FIBRE'') = [0x66, 0x131, 0x62, 0x72, 0x65]"
    by (simp add: toLocaleLowerCase_tr_def string_eval)
  have f1: "get (enGB fibreDictionary) (utf16 ''FIBRE'') = Undefined"
    "get (enUS fibreDictionary) (utf16 ''FIBRE'') = Undefined"
    by (simp_all add: fibreDictionary_eq get_def names_eval)
  have f2: "get (enGB fibreDictionary) (toLocaleLowerCase_tr (utf16 ''FIBRE'')) = Undefined"
    "get (enUS fibreDictionary) (toLocaleLowerCase_tr (utf16 ''FIBRE'')) = Undefined"
    by (simp_all only: tr) (simp_all add: fibreDictionary_eq get_def names_eval)
  have turkish: "remove fibreDictionary (utf16 ''FIBRE'') toLocaleLowerCase_tr = fibreDictionary"
    using C3_remove_resolution_order [where this = fibreDictionary and word = "utf16 ''FIBRE''"
        and locales = toLocaleLowerCase_tr] f1 f2
    by blast
  have u0: "utf16 ''fiber'' \<noteq> []" "toLowerCase (utf16 ''fiber'') \<noteq> []" "utf16 ''fibre'' \<noteq> []"
    by (simp_all add: string_eval)
  have u1: "get (enGB fibreDictionary) (utf16 ''fiber'') = Undefined"
    by (simp add: fibreDictionary_eq get_def names_eval)
  have u2: "map_of (own (enUS fibreDictionary)) (utf16 ''fiber'') =
      Some (utf16 ''fibre'', RegExp (utf16 ''fiber'') (utf16 ''gmi''))"
    by (simp add: fibreDictionary_eq)
  have "remove fibreDictionary (utf16 ''fiber'') toLowerCase =
      removePair fibreDictionary (utf16 ''fibre'') (utf16 ''fiber'')"
    using C3_remove_resolution_order [where this = fibreDictionary and word = "utf16 ''fiber''"
        and locales = toLowerCase and gb = "utf16 ''fibre''"
        and r = "RegExp (utf16 ''fiber'') (utf16 ''gmi'')"] u0 u1 u2
    by blast
  also have "\<dots> = emptyDictionary"
    by (simp add: removePair_def delete_def fibreDictionary_eq emptyDictionary_def
        emptyObject_def utf16_def)
  finally have us: "remove fibreDictionary (utf16 ''fiber'') toLowerCase = emptyDictionary" .
  have e1: "map_of (own (enGB fibreDictionary)) (utf16 ''fibre'') =
      Some (utf16 ''fiber'', RegExp (utf16 ''fibre'') (utf16 ''gmi''))"
    by (simp add: fibreDictionary_eq)
  have e0: "toLowerCase (utf16 ''fibre'') \<noteq> []"
    by (simp add: string_eval)
  have "remove fibreDictionary (utf16 ''fibre'') toLowerCase =
      removePair fibreDictionary (utf16 ''fibre'') (utf16 ''fiber'')"
    using C3_remove_resolution_order [where this = fibreDictionary and word = "utf16 ''fibre''"
        and locales = toLowerCase and us = "utf16 ''fiber''"
        and r = "RegExp (utf16 ''fibre'') (utf16 ''gmi'')"] u0 e0 e1
    by blast
  also have "\<dots> = emptyDictionary"
    by (simp add: removePair_def delete_def fibreDictionary_eq emptyDictionary_def
        emptyObject_def utf16_def)
  finally have gb: "remove fibreDictionary (utf16 ''fibre'') toLowerCase = emptyDictionary" .
  have lowM: "toLowerCase (utf16 ''Mustache'') = utf16 ''mustache''"
    by (simp add: string_eval)
  have m0: "toLowerCase (utf16 ''Mustache'') \<noteq> []" "utf16 ''moustache'' \<noteq> []"
    by (simp_all only: lowM) (simp_all add: utf16_def)
  have m1: "get (enGB moustacheDictionary) (utf16 ''Mustache'') = Undefined"
    "get (enUS moustacheDictionary) (utf16 ''Mustache'') = Undefined"
    by (simp_all add: moustacheDictionary_eq get_def names_eval)
  have m2: "get (enGB moustacheDictionary) (toLowerCase (utf16 ''Mustache'')) = Undefined"
    by (simp only: lowM) (simp add: moustacheDictionary_eq get_def names_eval)
  have m3: "map_of (own (enUS moustacheDictionary)) (toLowerCase (utf16 ''Mustache'')) =
      Some (utf16 ''moustache'', RegExp (utf16 ''mustache'') (utf16 ''gmi''))"
    by (simp only: lowM) (simp add: moustacheDictionary_eq)
  have "remove moustacheDictionary (utf16 ''Mustache'') toLowerCase =
      removePair moustacheDictionary (utf16 ''moustache'') (toLowerCase (utf16 ''Mustache''))"
    using C3_remove_resolution_order [where this = moustacheDictionary
        and word = "utf16 ''Mustache''" and locales = toLowerCase
        and gb = "utf16 ''moustache''" and r = "RegExp (utf16 ''mustache'') (utf16 ''gmi'')"]
      m0 m1 m2 m3
    by blast
  also have "\<dots> = emptyDictionary"
    by (simp only: lowM)
      (simp add: removePair_def delete_def moustacheDictionary_eq emptyDictionary_def
        emptyObject_def utf16_def)
  finally have lower_us:
    "remove moustacheDictionary (utf16 ''Mustache'') toLowerCase = emptyDictionary" .
  have "toLowerCase [] = []" by simp
  then have empty: "remove fibreDictionary [] toLowerCase = fibreDictionary"
    using C3_remove_resolution_order [where this = fibreDictionary and word = "[]" and locales = toLowerCase]
    by blast
  show ?thesis
    using low mouldy pass1 pass2 tr turkish us gb lower_us empty by (intro conjI) assumption+
qed

text \<open>
  C4 (the code departs from it). The claim: \<open>add\<close> completes without raising for every
  pair of strings. \<open>add\<close> compiles each word as a pattern, unescaped, so a word that
  is not a pattern raises SyntaxError before anything is stored: \<open>c++\<close> (nothing to
  repeat) and \<open>(\<close> (a group that is not closed).
\<close>

theorem C4_add_raises_SyntaxError:
  "add emptyDictionary (utf16 ''c++'', utf16 ''cpp'') = (Thrown SyntaxError, emptyDictionary) \<and>
   add emptyDictionary (utf16 ''('', utf16 ''x'') = (Thrown SyntaxError, emptyDictionary)"
  by (simp add: add_def pattern_eval utf16_def ch_def)

text \<open>
  C5 (the code departs from it). The claim: a pattern equal to its own lowercase form
  gives the lowercase candidate. The Titlecase test comes first and asks only that
  the first code unit equal its own uppercase form, which a digit or an apostrophe
  does: for the pattern \<open>1a\<close>, equal to its lowercase form, the candidate \<open>ab\<close> comes
  back as \<open>Ab\<close>, not as its lowercase form \<open>ab\<close>; so does \<open>gbToUs("1a")\<close> after
  \<open>add({gb: "1a", us: "ab"})\<close>.
\<close>

theorem C5_caseless_first_unit_is_titlecased:
  "utf16 ''1a'' = toLowerCase (utf16 ''1a'') \<and>
   matchCase (utf16 ''ab'') (utf16 ''1a'') = utf16 ''Ab'' \<and>
   toLowerCase (utf16 ''ab'') = utf16 ''ab'' \<and>
   add emptyDictionary (utf16 ''1a'', utf16 ''ab'') = (Returned, digitDictionary) \<and>
   gbToUs digitDictionary (Word (utf16 ''1a'')) True =
     (Inr (Word (utf16 ''Ab'')), digitDictionary)"
proof -
  have mirror: "matchCase (utf16 ''ab'') (utf16 ''1a'') = utf16 ''Ab''"
    by (simp add: matchCase_def string_eval)
  have "map_of (own (enGB digitDictionary)) (utf16 ''1a'') =
      Some (utf16 ''ab'', RegExp (utf16 ''1a'') (utf16 ''gmi''))"
    by (simp add: digitDictionary_eq)
  then have "translateGBToUS digitDictionary (utf16 ''1a'') True = Inr (utf16 ''Ab'')"
    by (simp add: translateGBToUS_own mirror)
  then show ?thesis
    by (simp add: gbToUs_def add_digit mirror) (simp add: string_eval)
qed

text \<open>
  C6. Exact keys come before the lowercase fallback: when the GB index holds the key
  \<open>Gaol\<close> with value \<open>Jail\<close> and no key \<open>gaol\<close>, \<open>gbToUs("gaol")\<close> returns \<open>gaol\<close>
  and \<open>gbToUs("Gaol")\<close> returns \<open>Jail\<close>, with case matching on or off.
\<close>

theorem C6_exact_key_before_lowercase_fallback:
  assumes "map_of (own (enGB this)) (utf16 ''Gaol'') = Some (utf16 ''Jail'', regex)"
    and "map_of (own (enGB this)) (utf16 ''gaol'') = None"
  shows "gbToUs this (Word (utf16 ''gaol'')) flag = (Inr (Word (utf16 ''gaol'')), this) \<and>
         gbToUs this (Word (utf16 ''Gaol'')) flag = (Inr (Word (utf16 ''Jail'')), this)"
proof -
  have low: "toLowerCase (utf16 ''gaol'') = utf16 ''gaol''"
    by (simp add: string_eval)
  have mirror: "matchCase (utf16 ''Jail'') (utf16 ''Gaol'') = utf16 ''Jail''"
    by (simp add: matchCase_def string_eval)
  have "translateGBToUS this (utf16 ''gaol'') flag = Inr (utf16 ''gaol'')"
    using assms(2) by (simp add: translateGBToUS_def low get_gaol nullish_def truthy_def)
  moreover have "translateGBToUS this (utf16 ''Gaol'') flag = Inr (utf16 ''Jail'')"
    using assms(1) by (simp add: translateGBToUS_own mirror)
  ultimately show ?thesis by (simp add: gbToUs_def)
qed

theorem C6_witness:
  "add emptyDictionary (utf16 ''Gaol'', utf16 ''Jail'') = (Returned, gaolDictionary) \<and>
   gbToUs gaolDictionary (Word (utf16 ''gaol'')) True = (Inr (Word (utf16 ''gaol'')), gaolDictionary) \<and>
   gbToUs gaolDictionary (Word (utf16 ''Gaol'')) True = (Inr (Word (utf16 ''Jail'')), gaolDictionary)"
proof -
  have key: "map_of (own (enGB gaolDictionary)) (utf16 ''Gaol'') =
      Some (utf16 ''Jail'', RegExp (utf16 ''Gaol'') (utf16 ''gmi''))"
    by (simp add: gaolDictionary_eq utf16_def)
  have nokey: "map_of (own (enGB gaolDictionary)) (utf16 ''gaol'') = None"
    by (simp add: gaolDictionary_eq utf16_def)
  show ?thesis
    using C6_exact_key_before_lowercase_fallback [OF key nokey, of True] add_gaol by simp
qed

text \<open>
  C7. Overriding one side leaves the stale reverse entry: when the GB index maps
  \<open>g\<close> to \<open>u1\<close> and the US index maps \<open>u1\<close> to \<open>g\<close>, then after
  \<open>add({gb: g, us: u2})\<close> with \<open>u2\<close> other than \<open>u1\<close> has returned,
  \<open>gbToUs(g, false)\<close> is \<open>u2\<close>, \<open>usToGb(u1, false)\<close> is still \<open>g\<close>, and every entry
  other than the GB entry for \<open>g\<close> and the US entry for \<open>u2\<close> is as before.
\<close>

theorem C7_override_keeps_stale_reverse_entry:
  assumes gb: "map_of (own (enGB this)) g = Some (u1, r1)"
    and us: "map_of (own (enUS this)) u1 = Some (g, r2)"
    and new: "u2 \<noteq> u1"
    and added: "add this (g, u2) = (Returned, this')"
  shows "gbToUs this' (Word g) False = (Inr (Word u2), this') \<and>
         usToGb this' (Word u1) False = (Inr (Word g), this') \<and>
         (\<forall>k. k \<noteq> g \<longrightarrow> map_of (own (enGB this')) k = map_of (own (enGB this)) k) \<and>
         (\<forall>k. k \<noteq> u2 \<longrightarrow> map_of (own (enUS this')) k = map_of (own (enUS this)) k)"
proof -
  from added obtain r1' r2' where
    this': "this' = this\<lparr>enGB := put (enGB this) g (u2, r1'),
                          enUS := put (enUS this) u2 (g, r2')\<rparr>"
    using add_Returned by blast
  have G: "map_of (own (enGB this')) g = Some (u2, r1')"
    using gb by (simp add: this' own_put_same)
  have U: "map_of (own (enUS this')) u1 = Some (g, r2)"
    using us new by (simp add: this' own_put_other)
  have "translateGBToUS this' g False = Inr u2"
    by (simp add: translateGBToUS_own [OF G])
  moreover have "translateUSToGB this' u1 False = Inr g"
    by (simp add: translateUSToGB_own [OF U])
  ultimately show ?thesis
    by (simp add: gbToUs_def usToGb_def) (simp add: this' own_put_other)
qed

theorem C7_witness:
  "Dictionary [(utf16 ''colour'', utf16 ''color'')] [(utf16 ''colour'', utf16 ''hue'')] =
     Inr hueDictionary \<and>
   add colourDictionary (utf16 ''colour'', utf16 ''hue'') = (Returned, hueDictionary) \<and>
   map_of (own (enGB colourDictionary)) (utf16 ''colour'') =
     Some (utf16 ''color'', RegExp (utf16 ''colour'') (utf16 ''gmi'')) \<and>
   map_of (own (enUS colourDictionary)) (utf16 ''color'') =
     Some (utf16 ''colour'', RegExp (utf16 ''color'') (utf16 ''gmi'')) \<and>
   utf16 ''hue'' \<noteq> utf16 ''color'' \<and>
   gbToUs hueDictionary (Word (utf16 ''colour'')) False = (Inr (Word (utf16 ''hue'')), hueDictionary) \<and>
   usToGb hueDictionary (Word (utf16 ''color'')) False =
     (Inr (Word (utf16 ''colour'')), hueDictionary)"
proof -
  have g: "map_of (own (enGB colourDictionary)) (utf16 ''colour'') =
      Some (utf16 ''color'', RegExp (utf16 ''colour'') (utf16 ''gmi''))"
    by (simp add: colourDictionary_eq utf16_def)
  have u: "map_of (own (enUS colourDictionary)) (utf16 ''color'') =
      Some (utf16 ''colour'', RegExp (utf16 ''color'') (utf16 ''gmi''))"
    by (simp add: colourDictionary_eq utf16_def)
  have n: "utf16 ''hue'' \<noteq> utf16 ''color''"
    by (simp add: utf16_def)
  show ?thesis
    using C7_override_keeps_stale_reverse_entry [OF g u n add_hue] add_hue g u n
    by (simp add: Dictionary_hue)
qed

text \<open>
  C8. A one-unit pattern equal to its own uppercase form takes the Titlecase rule, not
  the all-uppercase rule: for a candidate that is not empty the result is the
  uppercase form of its first code unit followed by the lowercase form of the rest.
\<close>

theorem C8_single_uppercase_pattern_is_titlecase:
  assumes "input \<noteq> []" and "toUpperCase [p] = [p]"
  shows "matchCase input [p] = toUpperCase (charAt input 0) @ toLowerCase (slice_from input 1)"
  using assms by (simp add: matchCase_def charAt_def slice_from_def)

theorem C8_witness:
  "utf16 ''ab'' \<noteq> [] \<and> toUpperCase [ch CHR ''A''] = [ch CHR ''A''] \<and>
   matchCase (utf16 ''ab'') [ch CHR ''A''] = utf16 ''Ab'' \<and>
   matchCase (utf16 ''ab'') [ch CHR ''A''] \<noteq> toUpperCase (utf16 ''ab'')"
  using C8_single_uppercase_pattern_is_titlecase [of "utf16 ''ab''" "ch CHR ''A''"]
  by (simp add: string_eval)

text \<open>
  C9 (amended). The claim: translating the empty string always returns the empty
  string, an entry under the empty key never being returned. The lookup has no such
  guard: after \<open>add({gb: "", us: "x"})\<close>, \<open>gbToUs("")\<close> returns \<open>x\<close>.
\<close>

theorem C9_empty_key_entry_is_returned:
  "add emptyDictionary ([], utf16 ''x'') = (Returned, emptyKeyDictionary) \<and>
   gbToUs emptyKeyDictionary (Word []) True = (Inr (Word (utf16 ''x'')), emptyKeyDictionary) \<and>
   utf16 ''x'' \<noteq> []"
proof -
  have "map_of (own (enGB emptyKeyDictionary)) [] = Some (utf16 ''x'', RegExp [] (utf16 ''gmi''))"
    by (simp add: emptyKeyDictionary_eq)
  then have "translateGBToUS emptyKeyDictionary [] True = Inr (utf16 ''x'')"
    by (simp add: translateGBToUS_own)
  then show ?thesis
    by (simp add: gbToUs_def add_empty_key) (simp add: utf16_def)
qed

text \<open>
  C9 as amended: translating the empty string, in either direction and with either
  flag, returns the empty string when the index of that direction holds no entry
  under the empty key; when it holds one, the counterpart stored there is returned
  as it is.
\<close>

theorem C9_empty_word_lookup:
  "(map_of (own (enGB this)) [] = None \<longrightarrow>
      gbToUs this (Word []) flag = (Inr (Word []), this)) \<and>
   (map_of (own (enGB this)) [] = Some (us, r) \<longrightarrow>
      gbToUs this (Word []) flag = (Inr (Word us), this)) \<and>
   (map_of (own (enUS this)) [] = None \<longrightarrow>
      usToGb this (Word []) flag = (Inr (Word []), this)) \<and>
   (map_of (own (enUS this)) [] = Some (gb, r') \<longrightarrow>
      usToGb this (Word []) flag = (Inr (Word gb), this))"
  by (simp add: gbToUs_def usToGb_def translateGBToUS_def translateUSToGB_def get_empty_key
      get_own nullish_def truthy_def destructureFirst_def)

theorem C9_witness:
  "map_of (own (enGB emptyDictionary)) [] = None \<and>
   gbToUs emptyDictionary (Word []) True = (Inr (Word []), emptyDictionary) \<and>
   map_of (own (enUS emptyKeyDictionary)) [] = None \<and>
   usToGb emptyKeyDictionary (Word []) False = (Inr (Word []), emptyKeyDictionary) \<and>
   map_of (own (enGB emptyKeyDictionary)) [] = Some (utf16 ''x'', RegExp [] (utf16 ''gmi'')) \<and>
   gbToUs emptyKeyDictionary (Word []) False = (Inr (Word (utf16 ''x'')), emptyKeyDictionary) \<and>
   map_of (own (enUS emptyValueDictionary)) [] = Some (utf16 ''x'', RegExp [] (utf16 ''gmi'')) \<and>
   usToGb emptyValueDictionary (Word []) True =
     (Inr (Word (utf16 ''x'')), emptyValueDictionary)"
proof -
  have e: "map_of (own (enGB emptyDictionary)) [] = None"
    by (simp add: emptyDictionary_def emptyObject_def)
  have u: "map_of (own (enUS emptyKeyDictionary)) [] = None"
    by (simp add: emptyKeyDictionary_eq utf16_def)
  have g: "map_of (own (enGB emptyKeyDictionary)) [] =
      Some (utf16 ''x'', RegExp [] (utf16 ''gmi''))"
    by (simp add: emptyKeyDictionary_eq)
  have v: "map_of (own (enUS emptyValueDictionary)) [] =
      Some (utf16 ''x'', RegExp [] (utf16 ''gmi''))"
    by (simp add: emptyValueDictionary_eq)
  show ?thesis
    using e u g v
      C9_empty_word_lookup [where this = emptyDictionary and flag = True]
      C9_empty_word_lookup [where this = emptyKeyDictionary and flag = False
        and us = "utf16 ''x''" and r = "RegExp [] (utf16 ''gmi'')"]
      C9_empty_word_lookup [where this = emptyValueDictionary and flag = True
        and gb = "utf16 ''x''" and r' = "RegExp [] (utf16 ''gmi'')"]
    by simp
qed

text \<open>
  C10. Translation is read-only: \<open>gbToUs\<close> and \<open>usToGb\<close>, for one word or an array of
  words and either flag, leave the dictionary as it was, so \<open>entries()\<close> yields the
  same sequence before and after the call.
\<close>

theorem C10_translation_is_read_only:
  "snd (gbToUs this ws flag) = this \<and> snd (usToGb this ws flag) = this \<and>
   entries (snd (gbToUs this ws flag)) = entries this \<and>
   entries (snd (usToGb this ws flag)) = entries this"
  by (cases ws) (simp_all add: gbToUs_def usToGb_def)

section \<open>What holds where the code departs from a claim\<close>

text \<open>
  Translation follows the lookup order of C1 whenever a key that is not stored yields
  undefined (it is not a name the index inherits): a stored exact key gives its
  counterpart, else a stored lowercase key gives its counterpart, else the word comes
  back unchanged; the counterpart is mirrored on the original word when the flag is
  set and returned as stored when it is not.
\<close>

theorem translate_lookup_order:
  "(map_of (own (enGB this)) word = Some (us, r) \<longrightarrow>
      translateGBToUS this word flag = Inr (if flag then matchCase us word else us)) \<and>
   (get (enGB this) word = Undefined \<and>
    map_of (own (enGB this)) (toLowerCase word) = Some (us, r) \<longrightarrow>
      translateGBToUS this word flag = Inr (if flag then matchCase us word else us)) \<and>
   (get (enGB this) word = Undefined \<and> get (enGB this) (toLowerCase word) = Undefined \<longrightarrow>
      translateGBToUS this word flag = Inr word) \<and>
   (map_of (own (enUS this)) word = Some (gb, r') \<longrightarrow>
      translateUSToGB this word flag = Inr (if flag then matchCase gb word else gb)) \<and>
   (get (enUS this) word = Undefined \<and>
    map_of (own (enUS this)) (toLowerCase word) = Some (gb, r') \<longrightarrow>
      translateUSToGB this word flag = Inr (if flag then matchCase gb word else gb)) \<and>
   (get (enUS this) word = Undefined \<and> get (enUS this) (toLowerCase word) = Undefined \<longrightarrow>
      translateUSToGB this word flag = Inr word)"
  by (simp add: translateGBToUS_def translateUSToGB_def get_own nullish_def truthy_def
      destructureFirst_def)

theorem translate_lookup_order_witness:
  "gbToUs colourDictionary (Words [utf16 ''colour'', utf16 ''COLOUR'', utf16 ''unknownword'']) True =
     (Inr (Words [utf16 ''color'', utf16 ''COLOR'', utf16 ''unknownword'']), colourDictionary)"
proof -
  let ?r = "RegExp (utf16 ''colour'') (utf16 ''gmi'')"
  have own1: "map_of (own (enGB colourDictionary)) (utf16 ''colour'') = Some (utf16 ''color'', ?r)"
    by (simp add: colourDictionary_eq)
  have low2: "toLowerCase (utf16 ''COLOUR'') = utf16 ''colour''"
    by (simp add: string_eval)
  have g2: "get (enGB colourDictionary) (utf16 ''COLOUR'') = Undefined"
    by (simp add: colourDictionary_eq get_def names_eval)
  have low3: "toLowerCase (utf16 ''unknownword'') = utf16 ''unknownword''"
    by (simp add: string_eval)
  have g3: "get (enGB colourDictionary) (utf16 ''unknownword'') = Undefined"
    by (simp add: colourDictionary_eq get_def names_eval)
  have m1: "matchCase (utf16 ''color'') (utf16 ''colour'') = utf16 ''color''"
    by (simp add: matchCase_def string_eval Let_def)
  have m2: "matchCase (utf16 ''color'') (utf16 ''COLOUR'') = utf16 ''COLOR''"
    by (simp add: matchCase_def string_eval Let_def)
  have t1: "translateGBToUS colourDictionary (utf16 ''colour'') True = Inr (utf16 ''color'')"
    using translate_lookup_order [where this = colourDictionary and word = "utf16 ''colour''"
        and us = "utf16 ''color''" and r = ?r and flag = True] own1 m1
    by simp
  have t2: "translateGBToUS colourDictionary (utf16 ''COLOUR'') True = Inr (utf16 ''COLOR'')"
    using translate_lookup_order [where this = colourDictionary and word = "utf16 ''COLOUR''"
        and us = "utf16 ''color''" and r = ?r and flag = True] own1 g2 m2
    unfolding low2 by simp
  have t3: "translateGBToUS colourDictionary (utf16 ''unknownword'') True =
      Inr (utf16 ''unknownword'')"
    using translate_lookup_order [where this = colourDictionary
        and word = "utf16 ''unknownword''" and flag = True] g3
    unfolding low3 by simp
  show ?thesis
    by (simp add: gbToUs_def t1 t2 t3)
qed

text \<open>
  \<open>add\<close> of two words that the host compiles as patterns returns \<open>this\<close> and stores
  both entries as given, overwriting an entry under the same key and leaving every
  other entry alone. The key \<open>__proto__\<close> is stored only where the index already
  owns it.
\<close>

theorem add_stores_both_entries:
  assumes "pattern_ok gb" and "pattern_ok us"
  shows "\<exists>this'. add this (gb, us) = (Returned, this') \<and>
     (gb \<noteq> utf16 ''__proto__'' \<or> map_of (own (enGB this)) gb \<noteq> None \<longrightarrow>
        map_of (own (enGB this')) gb = Some (us, RegExp gb (utf16 ''gmi''))) \<and>
     (us \<noteq> utf16 ''__proto__'' \<or> map_of (own (enUS this)) us \<noteq> None \<longrightarrow>
        map_of (own (enUS this')) us = Some (gb, RegExp us (utf16 ''gmi''))) \<and>
     (\<forall>k. k \<noteq> gb \<longrightarrow> map_of (own (enGB this')) k = map_of (own (enGB this)) k) \<and>
     (\<forall>k. k \<noteq> us \<longrightarrow> map_of (own (enUS this')) k = map_of (own (enUS this)) k)"
  using assms
  by (auto simp: add_def RegExp_new_def Let_def put_def update_conv')

theorem add_stores_both_entries_witness:
  "pattern_ok (utf16 ''tyre'') \<and> pattern_ok (utf16 ''tire'') \<and>
   add emptyDictionary (utf16 ''tyre'', utf16 ''tire'') = (Returned, tyreDictionary) \<and>
   map_of (own (enGB tyreDictionary)) (utf16 ''tyre'') =
     Some (utf16 ''tire'', RegExp (utf16 ''tyre'') (utf16 ''gmi'')) \<and>
   map_of (own (enUS tyreDictionary)) (utf16 ''tire'') =
     Some (utf16 ''tyre'', RegExp (utf16 ''tire'') (utf16 ''gmi''))"
proof -
  have a: "pattern_ok (utf16 ''tyre'')" and b: "pattern_ok (utf16 ''tire'')"
    by (simp_all add: pattern_ok_def utf16_def ch_def)
  from add_stores_both_entries [OF a b, of emptyDictionary]
  have "fst (add emptyDictionary (utf16 ''tyre'', utf16 ''tire'')) = Returned"
    by auto
  then have r: "add emptyDictionary (utf16 ''tyre'', utf16 ''tire'') = (Returned, tyreDictionary)"
    by (simp add: tyreDictionary_def prod_eq_iff)
  have g: "map_of (own (enGB tyreDictionary)) (utf16 ''tyre'') =
      Some (utf16 ''tire'', RegExp (utf16 ''tyre'') (utf16 ''gmi''))"
    by (simp add: tyreDictionary_eq)
  have u: "map_of (own (enUS tyreDictionary)) (utf16 ''tire'') =
      Some (utf16 ''tyre'', RegExp (utf16 ''tire'') (utf16 ''gmi''))"
    by (simp add: tyreDictionary_eq)
  show ?thesis
    using a b r g u by (intro conjI) assumption+
qed

text \<open>
  A pattern of code units up to U+00FF that is equal to its own lowercase form gives
  the lowercase candidate when its first code unit is not its own uppercase form,
  that is when the pattern starts with a lowercase letter.
\<close>

theorem lowercase_pattern_with_cased_head:
  assumes "input \<noteq> []" and "toMatch \<noteq> []" and "toMatch = toLowerCase toMatch"
    and "charAt toMatch 0 \<noteq> toUpperCase (charAt toMatch 0)"
    and "latin1 toMatch"
  shows "matchCase input toMatch = toLowerCase input"
proof -
  have e: "\<not> (length input = 0 \<or> length toMatch = 0)"
    using assms(1,2) by simp
  have t: "\<not> (charAt toMatch 0 = toUpperCase (charAt toMatch 0) \<and>
      slice_from toMatch 1 = toLowerCase (slice_from toMatch 1))"
    using assms(4) by simp
  have u: "\<not> toMatch = toUpperCase toMatch"
    using toUpperCase_fixed_head assms(2,4) by blast
  have l: "(toMatch = toLowerCase toMatch) = True"
    using assms(3) by simp
  show ?thesis
    by (simp only: matchCase_def Let_def e t u l if_False if_True)
qed

theorem lowercase_pattern_witness:
  "utf16 ''color'' \<noteq> [] \<and> utf16 ''colour'' \<noteq> [] \<and>
   utf16 ''colour'' = toLowerCase (utf16 ''colour'') \<and>
   charAt (utf16 ''colour'') 0 \<noteq> toUpperCase (charAt (utf16 ''colour'') 0) \<and>
   latin1 (utf16 ''colour'') \<and>
   matchCase (utf16 ''color'') (utf16 ''colour'') = utf16 ''color''"
proof -
  have a: "utf16 ''color'' \<noteq> []" "utf16 ''colour'' \<noteq> []"
    by (simp_all add: utf16_def)
  have b: "utf16 ''colour'' = toLowerCase (utf16 ''colour'')"
    by (simp add: string_eval)
  have c: "charAt (utf16 ''colour'') 0 \<noteq> toUpperCase (charAt (utf16 ''colour'') 0)"
    by (simp add: string_eval)
  have d: "latin1 (utf16 ''colour'')"
    by (simp add: latin1_def utf16_def)
  have "toLowerCase (utf16 ''color'') = utf16 ''color''"
    by (simp add: string_eval)
  then show ?thesis
    using lowercase_pattern_with_cased_head [OF a b c d] a b c d by simp
qed

text \<open>
  On strings of code units up to U+00FF the mixed-casing loop does what C2 describes,
  with A to Z in place of "uppercase": for a candidate and a mixed pattern, neither
  empty, the result is as long as the candidate; at every index below both lengths,
  where the two agree ignoring case the candidate's character is uppercased if the
  pattern's is one of A to Z and lowercased otherwise, and where they differ it is
  unchanged; the part of a longer candidate past the pattern's length is unchanged.
\<close>

theorem mixed_pattern_transfer_latin1:
  assumes "input \<noteq> []" and "toMatch \<noteq> []" and "mixedPattern toMatch"
    and "latin1 input" and "latin1 toMatch"
  shows "length (matchCase input toMatch) = length input \<and>
     (\<forall>i < min (length input) (length toMatch).
        charAt (matchCase input toMatch) i =
          (if toLowerCase (charAt input i) = toLowerCase (charAt toMatch i)
           then (if isRefUpper (charAt toMatch i) then toUpperCase (charAt input i)
                 else toLowerCase (charAt input i))
           else charAt input i)) \<and>
     (\<forall>i < length toMatch.
        isRefUpper (charAt toMatch i) = (0x41 \<le> toMatch ! i \<and> toMatch ! i \<le> 0x5A)) \<and>
     (length toMatch < length input \<longrightarrow>
        slice_from (matchCase input toMatch) (length toMatch) =
          slice_from input (length toMatch))"
proof -
  let ?m = "min (length input) (length toMatch)"
  let ?pieces = "map (transferCase input toMatch) [0..<?m]"
  let ?rest = "if length toMatch < length input then slice_from input (length toMatch) else []"
  have result: "matchCase input toMatch = concat ?pieces @ ?rest"
    using assms(1,2,3) by (rule matchCase_mixed)
  have "\<forall>x \<in> set ?pieces. \<exists>u. x = [u]"
    using transferCase_unit by auto
  then have units: "length (concat ?pieces) = length ?pieces \<and>
      (\<forall>j < length ?pieces. [concat ?pieces ! j] = ?pieces ! j)"
    by (rule concat_units)
  then have len: "length (concat ?pieces) = ?m" by simp
  have at: "[concat ?pieces ! i] = transferCase input toMatch i" if "i < ?m" for i
    using units that by simp
  show ?thesis
  proof (intro conjI allI impI)
    show "length (matchCase input toMatch) = length input"
    proof (cases "length toMatch < length input")
      case True
      then have "?m = length toMatch" by simp
      with len True show ?thesis by (simp add: result slice_from_def)
    next
      case False
      then have "?m = length input" by simp
      with len False show ?thesis by (simp add: result)
    qed
  next
    fix i assume i: "i < ?m"
    have "charAt (matchCase input toMatch) i = [concat ?pieces ! i]"
      using i len by (simp add: charAt_def result nth_append)
    then have "charAt (matchCase input toMatch) i = transferCase input toMatch i"
      using at [OF i] by simp
    then show "charAt (matchCase input toMatch) i =
          (if toLowerCase (charAt input i) = toLowerCase (charAt toMatch i)
           then (if isRefUpper (charAt toMatch i) then toUpperCase (charAt input i)
                 else toLowerCase (charAt input i))
           else charAt input i)"
      by (simp add: transferCase_def Let_def)
  next
    fix i assume "i < length toMatch"
    then show "isRefUpper (charAt toMatch i) = (0x41 \<le> toMatch ! i \<and> toMatch ! i \<le> 0x5A)"
      by (simp add: charAt_def isRefUpper_unit)
  next
    assume longer: "length toMatch < length input"
    then have "?m = length toMatch" by simp
    with len longer show "slice_from (matchCase input toMatch) (length toMatch) =
        slice_from input (length toMatch)"
      by (simp add: result slice_from_def)
  qed
qed

theorem mixed_pattern_transfer_latin1_witness:
  "utf16 ''colour'' \<noteq> [] \<and> utf16 ''coLor'' \<noteq> [] \<and> mixedPattern (utf16 ''coLor'') \<and>
   latin1 (utf16 ''colour'') \<and> latin1 (utf16 ''coLor'') \<and>
   length (matchCase (utf16 ''colour'') (utf16 ''coLor'')) = 6 \<and>
   charAt (matchCase (utf16 ''colour'') (utf16 ''coLor'')) 2 = utf16 ''L'' \<and>
   slice_from (matchCase (utf16 ''colour'') (utf16 ''coLor'')) 5 = utf16 ''r'' \<and>
   matchCase (utf16 ''colour'') (utf16 ''coLor'') = utf16 ''coLour''"
proof -
  have a: "utf16 ''colour'' \<noteq> []" and b: "utf16 ''coLor'' \<noteq> []"
    by (simp_all add: utf16_def)
  have c: "mixedPattern (utf16 ''coLor'')"
    by (simp add: mixedPattern_def string_eval)
  have l: "length (utf16 ''colour'') = 6" "length (utf16 ''coLor'') = 5"
    by (simp_all add: utf16_def)
  have d: "latin1 (utf16 ''colour'')" and e: "latin1 (utf16 ''coLor'')"
    by (simp_all add: latin1_def utf16_def)
  note claim = mixed_pattern_transfer_latin1 [OF a b c d e]
  have len: "length (matchCase (utf16 ''colour'') (utf16 ''coLor'')) = 6"
    using claim [THEN conjunct1] by (simp only: l)
  have "2 < min (length (utf16 ''colour'')) (length (utf16 ''coLor''))"
    by (simp add: l)
  with claim [THEN conjunct2, THEN conjunct1]
  have "charAt (matchCase (utf16 ''colour'') (utf16 ''coLor'')) 2 =
      (if toLowerCase (charAt (utf16 ''colour'') 2) = toLowerCase (charAt (utf16 ''coLor'') 2)
       then (if isRefUpper (charAt (utf16 ''coLor'') 2)
             then toUpperCase (charAt (utf16 ''colour'') 2)
             else toLowerCase (charAt (utf16 ''colour'') 2))
       else charAt (utf16 ''colour'') 2)"
    by blast
  also have "\<dots> = utf16 ''L''"
    by (simp add: string_eval)
  finally have at2: "charAt (matchCase (utf16 ''colour'') (utf16 ''coLor'')) 2 = utf16 ''L''" .
  have "length (utf16 ''coLor'') < length (utf16 ''colour'')"
    by (simp add: l)
  with claim [THEN conjunct2, THEN conjunct2, THEN conjunct2]
  have "slice_from (matchCase (utf16 ''colour'') (utf16 ''coLor'')) (length (utf16 ''coLor'')) =
      slice_from (utf16 ''colour'') (length (utf16 ''coLor''))"
    by blast
  then have rest: "slice_from (matchCase (utf16 ''colour'') (utf16 ''coLor'')) 5 = utf16 ''r''"
    by (simp only: l) (simp add: utf16_def slice_from_def)
  have whole: "matchCase (utf16 ''colour'') (utf16 ''coLor'') = utf16 ''coLour''"
    by (simp add: matchCase_def string_eval Let_def)
  show ?thesis
    using a b c d e len at2 rest whole by (intro conjI) assumption+
qed

end
